theory Spec2Isabelle
  imports Complex_Main
begin

section \<open>kafe: the fit engine of \<^verbatim>\<open>fit.py\<close>\<close>

text \<open>
  A shallow embedding of \<^verbatim>\<open>src/kafe/fit.py\<close>. Python floats are modelled as
  \<^typ>\<open>real\<close> (exact arithmetic: rounding, NaN and infinities are outside the model; the
  two places where the precision decides the result, the single precision arrays of the
  constraints and the floor of a quotient of logarithms, take the machine's operation as a
  parameter),
  Python integers as \<^typ>\<open>int\<close>, numpy vectors as lists and numpy matrices as lists
  of rows. Exceptions are values of the type \<open>error\<close>; every operation that can raise
  returns \<open>error + 'a\<close> with \<open>Inl\<close> for the exception.

  The minimizer (class \<^verbatim>\<open>Minuit\<close>) is an external collaborator. The \<^verbatim>\<open>Fit\<close>
  object only sends it messages; the model records them in the order sent. The
  attribute \<^verbatim>\<open>self.minimizer\<close> does not exist until the constructor creates it, which is
  the value \<open>None\<close> of the field.
\<close>

subsection \<open>Python values, exceptions and indexing\<close>

datatype lookup = ById int | ByName string

datatype error =
    ArgumentPattern
  | ParameterNumberMismatch
  | ParameterErrorNumberMismatch
  | InvalidParameter lookup
  | ValueError
  | TypeError
  | IndexError
  | AttributeError
  | UnpackError
  | LinAlgError

datatype warning =
    StartingErrorsNotGiven
  | ParameterErrorNotGiven string
  | MinimizerNotInitialized
  | InputErrorZero

datatype pykey = KeyStr string | KeyInt int

datatype pyspec = Bare real | Tuple "real list"

datatype minuit_call =
    SetParameterValues "real list"
  | SetParameterErrors "real list"
  | FixParameter int
  | ReleaseParameter int
  | Minimize bool nat

text \<open>
  \<^verbatim>\<open>seq[i]\<close> on a sequence of length \<open>n\<close>: a negative index counts from the end, an index
  outside \<open>-n .. n-1\<close> raises \<^verbatim>\<open>IndexError\<close>. The result is the position read or written.
\<close>

definition py_index :: "nat \<Rightarrow> int \<Rightarrow> error + nat" where
  "py_index n i =
     (let j = (if i < 0 then int n + i else i)
      in if 0 \<le> j \<and> j < int n then Inr (nat j) else Inl IndexError)"

text \<open>\<^verbatim>\<open>seq.index(x)\<close>: the first position of \<open>x\<close>, \<open>None\<close> for \<^verbatim>\<open>ValueError\<close>.\<close>

fun index_of :: "'a list \<Rightarrow> 'a \<Rightarrow> nat option" where
  "index_of [] x = None"
| "index_of (y # ys) x =
     (if y = x then Some 0 else map_option Suc (index_of ys x))"

subsection \<open>The \<^verbatim>\<open>Fit\<close> object\<close>

record fit =
  number_of_parameters :: nat
  parameter_names :: "string list"
  current_parameter_values :: "real list"
  current_parameter_errors :: "real list"
  priv_fixed_parameters :: "bool list"
  number_of_fixed_parameters :: int
  priv_constrained_parameters :: "bool list"
  constrained_parameters :: "(real list \<times> real list) option"
  number_of_constrained_parameters :: int
  current_cov_mat :: "real list list"
  minimizer :: "minuit_call list option"
  warnings :: "warning list"

text \<open>
  \<^verbatim>\<open>_find_parameter\<close>: the lookup is first tried as an index into
  \<^verbatim>\<open>current_parameter_values\<close>. An integer in range (negative ones included) is returned as
  it was given; an integer out of range raises \<^verbatim>\<open>IndexError\<close>, which is not caught. A
  string raises \<^verbatim>\<open>TypeError\<close> there and is then looked up among the names.
\<close>

definition priv_find_parameter :: "fit \<Rightarrow> lookup \<Rightarrow> error + int option" where
  "priv_find_parameter f lookup_string =
     (case lookup_string of
        ById i \<Rightarrow>
          (case py_index (length (current_parameter_values f)) i of
             Inl e \<Rightarrow> Inl e
           | Inr _ \<Rightarrow> Inr (Some i))
      | ByName s \<Rightarrow>
          (case index_of (parameter_names f) s of
             None \<Rightarrow> Inr None
           | Some k \<Rightarrow> Inr (Some (int k))))"

subsection \<open>\<^verbatim>\<open>fix_parameters\<close> and \<^verbatim>\<open>release_parameters\<close>\<close>

fun fix_parameters :: "fit \<Rightarrow> lookup list \<Rightarrow> error + fit" where
  "fix_parameters f [] = Inr f"
| "fix_parameters f (parameter # rest) =
     (case priv_find_parameter f parameter of
        Inl e \<Rightarrow> Inl e
      | Inr None \<Rightarrow> Inl (InvalidParameter parameter)
      | Inr (Some par_id) \<Rightarrow>
          (case minimizer f of
             None \<Rightarrow> Inl AttributeError
           | Some calls \<Rightarrow>
               (case py_index (length (priv_fixed_parameters f)) par_id of
                  Inl e \<Rightarrow> Inl e
                | Inr k \<Rightarrow>
                    (case py_index (length (parameter_names f)) par_id of
                       Inl e \<Rightarrow> Inl e
                     | Inr _ \<Rightarrow>
                         fix_parameters
                           (f\<lparr>minimizer := Some (calls @ [FixParameter par_id]),
                              number_of_fixed_parameters := number_of_fixed_parameters f + 1,
                              priv_fixed_parameters := (priv_fixed_parameters f)[k := True]\<rparr>)
                           rest))))"

fun release_each :: "fit \<Rightarrow> lookup list \<Rightarrow> error + fit" where
  "release_each f [] = Inr f"
| "release_each f (parameter # rest) =
     (case priv_find_parameter f parameter of
        Inl e \<Rightarrow> Inl e
      | Inr None \<Rightarrow> Inl (InvalidParameter parameter)
      | Inr (Some par_id) \<Rightarrow>
          (case minimizer f of
             None \<Rightarrow> Inl AttributeError
           | Some calls \<Rightarrow>
               (case py_index (length (priv_fixed_parameters f)) par_id of
                  Inl e \<Rightarrow> Inl e
                | Inr k \<Rightarrow>
                    (case py_index (length (parameter_names f)) par_id of
                       Inl e \<Rightarrow> Inl e
                     | Inr _ \<Rightarrow>
                         release_each
                           (f\<lparr>minimizer := Some (calls @ [ReleaseParameter par_id]),
                              number_of_fixed_parameters := number_of_fixed_parameters f - 1,
                              priv_fixed_parameters := (priv_fixed_parameters f)[k := False]\<rparr>)
                           rest))))"

text \<open>
  With no argument the method walks \<^verbatim>\<open>xrange(number_of_parameters)\<close> and only tells the
  minimizer; neither the flags nor the counter are touched on that path.
\<close>

definition release_parameters :: "fit \<Rightarrow> lookup list \<Rightarrow> error + fit" where
  "release_parameters f parameters_to_release =
     (if parameters_to_release \<noteq> [] then release_each f parameters_to_release
      else if number_of_parameters f = 0 then Inr f
      else (case minimizer f of
              None \<Rightarrow> Inl AttributeError
            | Some calls \<Rightarrow>
                Inr (f\<lparr>minimizer :=
                         Some (calls @ map (\<lambda>par_id. ReleaseParameter (int par_id))
                                          [0..<number_of_parameters f])\<rparr>)))"

subsection \<open>\<^verbatim>\<open>constrain_parameters\<close>\<close>

text \<open>
  The loop \<^verbatim>\<open>for i, parameter in enumerate(parameters)\<close>; \<open>i\<close> is the position reached.
  The right-hand side \<^verbatim>\<open>list(parvals)[i]\<close> is evaluated before the subscript on the
  left is; subscripting \<^verbatim>\<open>self.constrained_parameters\<close> when it is \<^verbatim>\<open>None\<close> raises
  \<^verbatim>\<open>TypeError\<close>.

  The constructor creates the two arrays of \<^verbatim>\<open>self.constrained_parameters\<close> with
  \<^verbatim>\<open>dtype=np.float32\<close>, so an assignment into them converts the double to single
  precision. The conversion is the parameter \<open>float32\<close> of the model: a number with a short
  binary expansion such as \<open>3\<close> or \<open>1/2\<close> is kept, \<open>0.1\<close> becomes \<open>13421773 \<cdot> 2\<^sup>-\<^sup>2\<^sup>7\<close>.
\<close>

fun constrain_loop ::
  "(real \<Rightarrow> real) \<Rightarrow> fit \<Rightarrow> nat \<Rightarrow> lookup list \<Rightarrow> real list \<Rightarrow> real list \<Rightarrow> error + fit" where
  "constrain_loop float32 f i [] parvals parerrs = Inr f"
| "constrain_loop float32 f i (parameter # rest) parvals parerrs =
     (case priv_find_parameter f parameter of
        Inl e \<Rightarrow> Inl e
      | Inr None \<Rightarrow> Inl (InvalidParameter parameter)
      | Inr (Some par_id) \<Rightarrow>
          if \<not> i < length parvals then Inl IndexError
          else (case constrained_parameters f of
                  None \<Rightarrow> Inl TypeError
                | Some (targets, sigmas) \<Rightarrow>
                    (case py_index (length targets) par_id of
                       Inl e \<Rightarrow> Inl e
                     | Inr kt \<Rightarrow>
                         if \<not> i < length parerrs then Inl IndexError
                         else (case py_index (length sigmas) par_id of
                                 Inl e \<Rightarrow> Inl e
                               | Inr ks \<Rightarrow>
                                   (case py_index (length (priv_constrained_parameters f)) par_id of
                                      Inl e \<Rightarrow> Inl e
                                    | Inr kc \<Rightarrow>
                                        (case py_index (length (parameter_names f)) par_id of
                                           Inl e \<Rightarrow> Inl e
                                         | Inr _ \<Rightarrow>
                                             constrain_loop float32
                                               (f\<lparr>constrained_parameters :=
                                                    Some (targets[kt := float32 (parvals ! i)],
                                                          sigmas[ks := float32 (parerrs ! i)]),
                                                  number_of_constrained_parameters :=
                                                    number_of_constrained_parameters f + 1,
                                                  priv_constrained_parameters :=
                                                    (priv_constrained_parameters f)[kc := True]\<rparr>)
                                               (Suc i) rest parvals parerrs))))))"

definition constrain_parameters ::
  "(real \<Rightarrow> real) \<Rightarrow> fit \<Rightarrow> lookup list \<Rightarrow> real list \<Rightarrow> real list \<Rightarrow> error + fit" where
  "constrain_parameters float32 f parameters parvals parerrs =
     constrain_loop float32 f 0 parameters parvals parerrs"

text \<open>
  The number of degrees of freedom as \<^verbatim>\<open>print_fit_details\<close> computes it from the size
  of the dataset.
\<close>

definition ndf :: "int \<Rightarrow> fit \<Rightarrow> int" where
  "ndf dataset_size f =
     dataset_size - int (number_of_parameters f)
       + number_of_fixed_parameters f
       + number_of_constrained_parameters f"

subsection \<open>\<^verbatim>\<open>set_parameters\<close>\<close>

text \<open>
  The closing block of \<^verbatim>\<open>set_parameters\<close>: the values and errors are pushed to the
  minimizer; when the attribute is missing the \<^verbatim>\<open>AttributeError\<close> is caught and a
  warning is logged unless \<^verbatim>\<open>no_warning\<close> is set.
\<close>

definition update_minimizer :: "bool \<Rightarrow> fit \<Rightarrow> fit" where
  "update_minimizer no_warning f =
     (case minimizer f of
        Some calls \<Rightarrow>
          f\<lparr>minimizer := Some (calls @ [SetParameterValues (current_parameter_values f),
                                       SetParameterErrors (current_parameter_errors f)])\<rparr>
      | None \<Rightarrow>
          if \<not> no_warning then f\<lparr>warnings := warnings f @ [MinimizerNotInitialized]\<rparr>
          else f)"

text \<open>
  The keyword loop. \<^verbatim>\<open>param_val, param_err = param_spec\<close> unpacks a 2-tuple; a bare
  float raises \<^verbatim>\<open>TypeError\<close>, which is caught and replaced by
  \<^verbatim>\<open>param_spec, param_spec * 0.1\<close>; a tuple of another length raises an unpacking error
  that is not caught.
\<close>

fun set_keywords :: "bool \<Rightarrow> fit \<Rightarrow> (string \<times> pyspec) list \<Rightarrow> error + fit" where
  "set_keywords no_warning f [] = Inr f"
| "set_keywords no_warning f ((param_name, param_spec) # rest) =
     (case priv_find_parameter f (ByName param_name) of
        Inl e \<Rightarrow> Inl e
      | Inr None \<Rightarrow> Inl (InvalidParameter (ByName param_name))
      | Inr (Some par_id) \<Rightarrow>
          (case (case param_spec of
                   Tuple [param_val, param_err] \<Rightarrow> Inr (f, param_val, param_err)
                 | Tuple _ \<Rightarrow> Inl UnpackError
                 | Bare v \<Rightarrow>
                     Inr (if \<not> no_warning
                          then f\<lparr>warnings := warnings f @ [ParameterErrorNotGiven param_name]\<rparr>
                          else f,
                          v, v * (1 / 10))) of
             Inl e \<Rightarrow> Inl e
           | Inr (f1, param_val, param_err) \<Rightarrow>
               (case py_index (length (current_parameter_values f1)) par_id of
                  Inl e \<Rightarrow> Inl e
                | Inr kv \<Rightarrow>
                    (case py_index (length (current_parameter_errors f1)) par_id of
                       Inl e \<Rightarrow> Inl e
                     | Inr ke \<Rightarrow>
                         set_keywords no_warning
                           (f1\<lparr>current_parameter_values :=
                                  (current_parameter_values f1)[kv := param_val],
                                current_parameter_errors :=
                                  (current_parameter_errors f1)[ke := param_err]\<rparr>)
                           rest))))"

text \<open>
  Keyword names of a Python call are strings: a call through \<^verbatim>\<open>**\<close> with another key is
  refused with \<^verbatim>\<open>TypeError\<close> before the body runs.
\<close>

fun keyword_names :: "(pykey \<times> pyspec) list \<Rightarrow> (string \<times> pyspec) list option" where
  "keyword_names [] = Some []"
| "keyword_names ((KeyStr s, v) # rest) = map_option ((#) (s, v)) (keyword_names rest)"
| "keyword_names ((KeyInt i, v) # rest) = None"

text \<open>
  \<^verbatim>\<open>set_parameters(*args, **kwargs)\<close>. A positional argument is a list of floats or
  \<^verbatim>\<open>None\<close> (the constructor passes \<^verbatim>\<open>None\<close> for the errors); \<^verbatim>\<open>len(None)\<close> raises
  \<^verbatim>\<open>TypeError\<close>. \<^verbatim>\<open>no_warning\<close> is the keyword popped first.
\<close>

definition set_parameters ::
  "fit \<Rightarrow> real list option list \<Rightarrow> (pykey \<times> pyspec) list \<Rightarrow> bool \<Rightarrow> error + fit" where
  "set_parameters f args kwargs no_warning =
     (case keyword_names kwargs of
        None \<Rightarrow> Inl TypeError
      | Some kws \<Rightarrow>
          if args \<noteq> [] then
            (if length args = 1 \<or> length args = 2 then
               (case args ! 0 of
                  None \<Rightarrow> Inl TypeError
                | Some par_values \<Rightarrow>
                    if length par_values = number_of_parameters f then
                      (let f1 = f\<lparr>current_parameter_values := par_values\<rparr>
                       in case (if length args = 1 then None else args ! 1) of
                            Some par_errors \<Rightarrow>
                              if length par_values = number_of_parameters f1 then
                                Inr (update_minimizer no_warning
                                       (f1\<lparr>current_parameter_errors := par_errors\<rparr>))
                              else Inl ParameterErrorNumberMismatch
                          | None \<Rightarrow>
                              Inr (update_minimizer no_warning
                                     ((if \<not> no_warning
                                       then f1\<lparr>warnings := warnings f1 @ [StartingErrorsNotGiven]\<rparr>
                                       else f1)
                                      \<lparr>current_parameter_errors :=
                                         map (\<lambda>val. if val \<noteq> 0 then val / 10 else 1 / 10)
                                             par_values\<rparr>)))
                    else Inl ParameterNumberMismatch)
             else Inl ArgumentPattern)
          else
            (case set_keywords no_warning f kws of
               Inl e \<Rightarrow> Inl e
             | Inr f1 \<Rightarrow> Inr (update_minimizer no_warning f1)))"

subsection \<open>The objective function \<^verbatim>\<open>chi2\<close>\<close>

type_synonym fit_function = "real \<Rightarrow> real list \<Rightarrow> real"

text \<open>
  \<^verbatim>\<open>ydata - fdata\<close> on numpy vectors: element by element; a vector of length 1 is
  broadcast; other unequal lengths raise \<^verbatim>\<open>ValueError\<close>.
\<close>

definition np_sub :: "real list \<Rightarrow> real list \<Rightarrow> error + real list" where
  "np_sub a b =
     (if length a = length b then Inr (map2 (-) a b)
      else if length b = 1 then Inr (map (\<lambda>x. x - hd b) a)
      else if length a = 1 then Inr (map (\<lambda>y. hd a - y) b)
      else Inl ValueError)"

definition dot :: "real list \<Rightarrow> real list \<Rightarrow> real" where
  "dot u v = sum_list (map2 (*) u v)"

definition vec_mat :: "real list \<Rightarrow> real list list \<Rightarrow> real list" where
  "vec_mat v M = map (dot v) (transpose M)"

definition square :: "nat \<Rightarrow> real list list \<Rightarrow> bool" where
  "square k M = (length M = k \<and> list_all (\<lambda>row. length row = k) M)"

text \<open>
  The loop \<^verbatim>\<open>for i, err in enumerate(constrained_parameters[1])\<close>, with \<open>i\<close> the
  position reached and the running \<^verbatim>\<open>chi2val\<close>. The two subscripts are evaluated only
  under \<^verbatim>\<open>if(err)\<close>.
\<close>

fun apply_constraints :: "real list \<Rightarrow> real list \<Rightarrow> nat \<Rightarrow> real list \<Rightarrow> real \<Rightarrow> error + real" where
  "apply_constraints parameter_values targets i [] chi2val = Inr chi2val"
| "apply_constraints parameter_values targets i (err # rest) chi2val =
     (if err \<noteq> 0 then
        (if i < length parameter_values \<and> i < length targets then
           (let dchi2 = (parameter_values ! i - targets ! i) / err
            in apply_constraints parameter_values targets (Suc i) rest (chi2val + dchi2 * dchi2))
         else Inl IndexError)
      else apply_constraints parameter_values targets (Suc i) rest chi2val)"

text \<open>
  \<^verbatim>\<open>chi2\<close>. The matrix inverse \<^verbatim>\<open>cov_mat.I\<close> is numpy's; it is the parameter \<open>matI\<close>,
  with \<open>None\<close> for the \<^verbatim>\<open>LinAlgError\<close> of a singular matrix. The product
  \<^verbatim>\<open>residual.T.dot(cov_mat.I).dot(residual)\<close> needs a square matrix of the residual's
  length, else numpy raises \<^verbatim>\<open>ValueError\<close>.
\<close>

definition chi2 ::
  "(real list list \<Rightarrow> real list list option) \<Rightarrow> real list \<Rightarrow> real list \<Rightarrow> real list list
     \<Rightarrow> fit_function \<Rightarrow> real list \<Rightarrow> (real list \<times> real list) option \<Rightarrow> error + real" where
  "chi2 matI xdata ydata cov_mat fit_function parameter_values constraints =
     (let fdata = map (\<lambda>x. fit_function x parameter_values) xdata
      in case np_sub ydata fdata of
           Inl e \<Rightarrow> Inl e
         | Inr residual \<Rightarrow>
             (case matI cov_mat of
                None \<Rightarrow> Inl LinAlgError
              | Some cinv \<Rightarrow>
                  if \<not> square (length residual) cinv then Inl ValueError
                  else
                    (let chi2val = dot (vec_mat residual cinv) residual
                     in case constraints of
                          None \<Rightarrow> Inr chi2val
                        | Some (targets, sigmas) \<Rightarrow>
                            apply_constraints parameter_values targets 0 sigmas chi2val)))"

subsection \<open>\<^verbatim>\<open>round_to_significance\<close>\<close>

text \<open>
  Python 2's \<^verbatim>\<open>round(x, ndigits)\<close>: the closest multiple of \<open>10\<close> to the power
  \<open>- ndigits\<close>, a tie going away from zero.
\<close>

definition py_round :: "real \<Rightarrow> int \<Rightarrow> real" where
  "py_round x ndigits =
     sgn x * of_int \<lfloor>\<bar>x\<bar> * 10 powr of_int ndigits + 1 / 2\<rfloor> / 10 powr of_int ndigits"

text \<open>
  \<^verbatim>\<open>math.log\<close> of a negative number raises \<^verbatim>\<open>ValueError\<close> (math domain error); zero
  never reaches it, because of \<^verbatim>\<open>if error\<close>.

  The quotient \<^verbatim>\<open>log(error)/log(10)\<close> is computed in double precision and its floor is
  taken, so the last bit of the quotient decides the result where the exact quotient is an
  integer: at \<open>1000.0\<close> the machine's quotient is \<open>2.9999999999999996\<close>, not \<open>3\<close>. The
  quotient as the machine computes it is the parameter \<open>log_quotient\<close> of the model.
\<close>

definition round_to_significance ::
  "(real \<Rightarrow> real) \<Rightarrow> real \<Rightarrow> real \<Rightarrow> int \<Rightarrow> error + real \<times> real" where
  "round_to_significance log_quotient val err significance =
     (if err \<noteq> 0 then
        (if err < 0 then Inl ValueError
         else
           (let significant_digits = - \<lfloor>log_quotient err\<rfloor> + significance - 1
            in Inr (py_round val significant_digits, py_round err significant_digits)))
      else Inr (val, err))"

subsection \<open>Projection of the \<open>x\<close> covariance matrix\<close>

text \<open>
  What the \<^verbatim>\<open>Fit\<close> reads from its \<^verbatim>\<open>Dataset\<close>: \<^verbatim>\<open>get_data('x')\<close>,
  \<^verbatim>\<open>get_cov_mat('x')\<close>, \<^verbatim>\<open>get_cov_mat('y')\<close> and \<^verbatim>\<open>has_errors('x')\<close>.
\<close>

record dataset =
  get_data_x :: "real list"
  get_cov_mat_x :: "real list list"
  get_cov_mat_y :: "real list list"
  has_errors_x :: bool

text \<open>
  \<^verbatim>\<open>FitFunction.derive_by_x(x_0, precision_spec, parameter_list)\<close> belongs to
  \<^verbatim>\<open>function_tools\<close>; it is a parameter of the model: from the data points, the steps
  and the parameter values to the derivatives at the data points.
\<close>

type_synonym derive_by_x = "real list \<Rightarrow> real list \<Rightarrow> real list \<Rightarrow> real list"

text \<open>
  Modelled from the spec: \<^verbatim>\<open>outer_product\<close> of \<^verbatim>\<open>function_tools\<close>, which is not
  among the sources. The specification's formula multiplies the matrix entry \<open>(i, j)\<close> by
  \<open>(df/dx)\<^sub>i \<cdot> (df/dx)\<^sub>j\<close>: the outer product of the vector with itself.
\<close>

definition outer_product :: "real list \<Rightarrow> real list list" where
  "outer_product v = map (\<lambda>a. map (\<lambda>b. a * b) v) v"

definition np_diag :: "real list list \<Rightarrow> real list" where
  "np_diag M = map (\<lambda>i. M ! i ! i) [0..<length M]"

text \<open>
  The steps handed to \<^verbatim>\<open>derive_by_x\<close>: \<^verbatim>\<open>0.01 * np.sqrt(np.diag(cov))\<close>, one per data
  point, and the replacement of the zero steps when the smallest step is zero.
\<close>

definition precision_list :: "real list list \<Rightarrow> real list" where
  "precision_list cov = map (\<lambda>d. (1 / 100) * sqrt d) (np_diag cov)"

definition replace_zero_steps :: "real list \<Rightarrow> real list" where
  "replace_zero_steps ps = map (\<lambda>p. if p = 0 then 1 / 10 ^ 7 else p) ps"

text \<open>
  \<^verbatim>\<open>project_x_covariance_matrix\<close>. Python's \<^verbatim>\<open>min\<close> of an empty sequence raises
  \<^verbatim>\<open>ValueError\<close>. The two matrix operations are element by element on matrices of one
  shape, which is the contract of the \<^verbatim>\<open>Dataset\<close>.
\<close>

definition project_x_covariance_matrix :: "derive_by_x \<Rightarrow> dataset \<Rightarrow> fit \<Rightarrow> error + fit" where
  "project_x_covariance_matrix dbx ds f =
     (let ps = precision_list (current_cov_mat f)
      in if ps = [] then Inl ValueError
         else
           (let zero = (min_list ps = 0);
                f1 = (if zero then f\<lparr>warnings := warnings f @ [InputErrorZero]\<rparr> else f);
                ps1 = (if zero then replace_zero_steps ps else ps);
                outer_prod = outer_product (dbx (get_data_x ds) ps1 (current_parameter_values f1));
                proj_xcov_mat = map2 (map2 (*)) (get_cov_mat_x ds) outer_prod
            in Inr (f1\<lparr>current_cov_mat := map2 (map2 (+)) (get_cov_mat_y ds) proj_xcov_mat\<rparr>)))"

subsection \<open>\<^verbatim>\<open>do_fit\<close>\<close>

text \<open>
  \<^verbatim>\<open>call_minimizer\<close>: one \<^verbatim>\<open>minimize\<close> message, then the parameter values and errors
  are read back. What Minuit answers is the parameter \<open>mz\<close>, a function of the whole state
  of the \<^verbatim>\<open>Fit\<close> at the time of the call (the objective function is evaluated on it).
\<close>

type_synonym minuit = "fit \<Rightarrow> real list \<times> real list"

definition call_minimizer :: "minuit \<Rightarrow> bool \<Rightarrow> bool \<Rightarrow> fit \<Rightarrow> error + fit" where
  "call_minimizer mz final_fit verbose f =
     (let verbosity = (if verbose then 3 else if final_fit then 2 else 0)
      in case minimizer f of
           None \<Rightarrow> Inl AttributeError
         | Some calls \<Rightarrow>
             (let f1 = f\<lparr>minimizer := Some (calls @ [Minimize final_fit verbosity])\<rparr>
              in Inr (f1\<lparr>current_parameter_values := fst (mz f1),
                         current_parameter_errors := snd (mz f1)\<rparr>)))"

text \<open>
  \<^verbatim>\<open>np.allclose(a, b, atol, rtol)\<close> on two matrices of one shape: every pair of entries
  satisfies \<open>\<bar>a - b\<bar> \<le> atol + rtol * \<bar>b\<bar>\<close>.
\<close>

definition allclose :: "real list list \<Rightarrow> real list list \<Rightarrow> real \<Rightarrow> real \<Rightarrow> bool" where
  "allclose a b atol rtol =
     list_all2 (list_all2 (\<lambda>x y. \<bar>x - y\<bar> \<le> atol + rtol * \<bar>y\<bar>)) a b"

definition max_x_iterations :: nat where
  "max_x_iterations = 10"

text \<open>The \<^verbatim>\<open>while iter_nr < max_x_iterations\<close> loop of \<^verbatim>\<open>do_fit\<close>.\<close>

function x_iterations :: "derive_by_x \<Rightarrow> minuit \<Rightarrow> dataset \<Rightarrow> bool \<Rightarrow> nat \<Rightarrow> fit \<Rightarrow> error + fit" where
  "x_iterations dbx mz ds verbose iter_nr f =
     (if iter_nr < max_x_iterations then
        (let old_matrix = current_cov_mat f
         in case project_x_covariance_matrix dbx ds f of
              Inl e \<Rightarrow> Inl e
            | Inr f1 \<Rightarrow>
                (case call_minimizer mz (iter_nr \<noteq> 0) verbose f1 of
                   Inl e \<Rightarrow> Inl e
                 | Inr f2 \<Rightarrow>
                     if allclose old_matrix (current_cov_mat f2) 0 (1 / 10 ^ 4) then Inr f2
                     else x_iterations dbx mz ds verbose (iter_nr + 1) f2))
      else Inr f)"
  by pat_completeness auto
termination
  by (relation "measure (\<lambda>(dbx, mz, ds, verbose, iter_nr, f). max_x_iterations - iter_nr)") auto

text \<open>
  \<^verbatim>\<open>do_fit\<close> without its printing (\<^verbatim>\<open>quiet=True\<close>): the constraints are dropped when
  none was recorded, the minimizer is called once, and the loop runs when the dataset has
  \<open>x\<close> errors.
\<close>

definition do_fit :: "derive_by_x \<Rightarrow> minuit \<Rightarrow> dataset \<Rightarrow> bool \<Rightarrow> fit \<Rightarrow> error + fit" where
  "do_fit dbx mz ds verbose f =
     (let f0 = (if number_of_constrained_parameters f = 0
                then f\<lparr>constrained_parameters := None\<rparr> else f)
      in case call_minimizer mz (\<not> has_errors_x ds) verbose f0 of
           Inl e \<Rightarrow> Inl e
         | Inr f1 \<Rightarrow>
             if has_errors_x ds then x_iterations dbx mz ds verbose 0 f1 else Inr f1)"

declare x_iterations.simps [simp del]

subsection \<open>Notions used in the statements\<close>

text \<open>Two calls in sequence; an exception of the first ends the sequence.\<close>

definition and_then :: "error + 'a \<Rightarrow> ('a \<Rightarrow> error + 'b) \<Rightarrow> error + 'b" where
  "and_then r k = (case r of Inl e \<Rightarrow> Inl e | Inr x \<Rightarrow> k x)"

text \<open>The number of flags that are set in \<^verbatim>\<open>_fixed_parameters\<close> or \<^verbatim>\<open>_constrained_parameters\<close>.\<close>

definition count_true :: "bool list \<Rightarrow> nat" where
  "count_true flags = length (filter id flags)"

text \<open>
  The shape the constructor gives a \<^verbatim>\<open>Fit\<close>: every per-parameter sequence has
  \<^verbatim>\<open>number_of_parameters\<close> entries, the constraint arrays exist and so does the minimizer.
\<close>

definition well_formed :: "fit \<Rightarrow> bool" where
  "well_formed f =
     (length (parameter_names f) = number_of_parameters f \<and>
      length (current_parameter_values f) = number_of_parameters f \<and>
      length (current_parameter_errors f) = number_of_parameters f \<and>
      length (priv_fixed_parameters f) = number_of_parameters f \<and>
      length (priv_constrained_parameters f) = number_of_parameters f \<and>
      (case constrained_parameters f of
         None \<Rightarrow> False
       | Some (targets, sigmas) \<Rightarrow>
           length targets = number_of_parameters f \<and> length sigmas = number_of_parameters f) \<and>
      minimizer f \<noteq> None)"

text \<open>
  A \<^verbatim>\<open>Fit\<close> of a function \<^verbatim>\<open>f(x, a=1., b=2.)\<close> as the constructor leaves it, on a dataset
  of two points without \<open>y\<close> errors; the messages to the minimizer are counted from there.
\<close>

definition example_fit :: fit where
  "example_fit =
     \<lparr>number_of_parameters = 2,
      parameter_names = [''a'', ''b''],
      current_parameter_values = [1, 2],
      current_parameter_errors = [1 / 10, 2 / 10],
      priv_fixed_parameters = [False, False],
      number_of_fixed_parameters = 0,
      priv_constrained_parameters = [False, False],
      constrained_parameters = Some ([0, 0], [0, 0]),
      number_of_constrained_parameters = 0,
      current_cov_mat = [[1, 0], [0, 1]],
      minimizer = Some [],
      warnings = []\<rparr>"

text \<open>
  Single precision on the numbers of the examples: \<open>0.1\<close> becomes \<open>13421773 \<cdot> 2\<^sup>-\<^sup>2\<^sup>7\<close>, the
  small integers and \<open>1/2\<close> are representable and stay.
\<close>

definition example_float32 :: "real \<Rightarrow> real" where
  "example_float32 x = (if x = 1 / 10 then 13421773 / 134217728 else x)"

text \<open>
  The formulas of the specification for the objective: the residual vector
  \<open>r = y - f(x; p)\<close>, the quadratic form \<open>r\<^sup>T M r\<close> and the sum of the penalties of the
  parameters whose \<open>sigma\<close> is not zero.
\<close>

definition residual_vector :: "fit_function \<Rightarrow> real list \<Rightarrow> real list \<Rightarrow> real list \<Rightarrow> real list" where
  "residual_vector f xs ys p = map (\<lambda>i. ys ! i - f (xs ! i) p) [0..<length xs]"

definition quadratic_form :: "real list \<Rightarrow> real list list \<Rightarrow> real" where
  "quadratic_form r M = (\<Sum>i<length r. \<Sum>j<length r. r ! i * M ! i ! j * r ! j)"

definition penalty :: "real list \<Rightarrow> real list \<Rightarrow> real list \<Rightarrow> real" where
  "penalty p targets sigmas =
     (\<Sum>i<length sigmas. if sigmas ! i \<noteq> 0 then ((p ! i - targets ! i) / sigmas ! i)\<^sup>2 else 0)"

text \<open>
  An example for the objective: the straight line \<open>p\<^sub>0 x + p\<^sub>1\<close>, and an inverse that knows
  the diagonal matrix with the entries \<open>2\<close> and \<open>4\<close> and reports every other matrix as
  singular.
\<close>

definition example_line :: fit_function where
  "example_line x p = p ! 0 * x + p ! 1"

definition example_inverse :: "real list list \<Rightarrow> real list list option" where
  "example_inverse M = (if M = [[2, 0], [0, 4]] then Some [[1 / 2, 0], [0, 1 / 4]] else None)"

text \<open>
  The weight of the \<open>N\<close>-th significant digit of a positive number: ten to the power of
  its decade minus \<open>N - 1\<close>.
\<close>

definition decimal_place :: "real \<Rightarrow> int \<Rightarrow> real" where
  "decimal_place err N = 10 powr of_int (\<lfloor>log 10 err\<rfloor> - N + 1)"

text \<open>
  The quotient \<^verbatim>\<open>log(error)/log(10)\<close> of double precision at the errors of the examples:
  \<open>6755399441055743 \<cdot> 2\<^sup>-\<^sup>5\<^sup>1\<close> (printed \<open>2.9999999999999996\<close>) at \<open>1000.0\<close> and
  \<open>- 2711437152599295 \<cdot> 2\<^sup>-\<^sup>5\<^sup>2\<close> (printed \<open>-0.6020599913279623\<close>) at \<open>0.25\<close>; elsewhere the exact
  quotient stands in.
\<close>

definition example_log_quotient :: "real \<Rightarrow> real" where
  "example_log_quotient e =
     (if e = 1000 then 6755399441055743 / 2251799813685248
      else if e = 1 / 4 then - 2711437152599295 / 4503599627370496
      else ln e / ln 10)"

text \<open>
  Examples for the projection: a dataset of two points with the \<open>x\<close> variance \<open>1/4\<close>, a
  derivative by forward differences, and a routine in the place of \<^verbatim>\<open>derive_by_x\<close> that
  returns the steps it was given.
\<close>

definition example_dataset :: dataset where
  "example_dataset =
     \<lparr>get_data_x = [1, 2],
      get_cov_mat_x = [[1 / 4, 0], [0, 1 / 4]],
      get_cov_mat_y = [[0, 0], [0, 4]],
      has_errors_x = True\<rparr>"

definition forward_difference :: "fit_function \<Rightarrow> derive_by_x" where
  "forward_difference f xs steps ps = map2 (\<lambda>x h. (f (x + h) ps - f x ps) / h) xs steps"

definition steps_probe :: derive_by_x where
  "steps_probe xs steps ps = steps"

text \<open>
  Notions for the loop of \<^verbatim>\<open>do_fit\<close>. One pass of the loop body with the iteration
  number \<open>iter_nr\<close>: the projection, then the minimizer (\<^verbatim>\<open>final_fit\<close> from the second
  pass on). The state after \<open>k\<close> passes, the first of them with the iteration number \<open>i\<close>,
  when no pass ends the loop. Pass number \<open>k\<close> (counted from \<open>0\<close>) converges when the matrix
  it leaves is close to the snapshot taken before it, entry by entry, with the relative
  tolerance \<open>1e-4\<close> and the absolute tolerance \<open>0\<close>. The number of \<^verbatim>\<open>minimize\<close> messages
  the minimizer has received counts the passes.
\<close>

definition x_pass :: "derive_by_x \<Rightarrow> minuit \<Rightarrow> dataset \<Rightarrow> bool \<Rightarrow> nat \<Rightarrow> fit \<Rightarrow> error + fit" where
  "x_pass dbx mz ds verbose iter_nr f =
     (case project_x_covariance_matrix dbx ds f of
        Inl e \<Rightarrow> Inl e
      | Inr f1 \<Rightarrow> call_minimizer mz (iter_nr \<noteq> 0) verbose f1)"

fun after_passes ::
  "derive_by_x \<Rightarrow> minuit \<Rightarrow> dataset \<Rightarrow> bool \<Rightarrow> nat \<Rightarrow> nat \<Rightarrow> fit \<Rightarrow> error + fit" where
  "after_passes dbx mz ds verbose i 0 f = Inr f"
| "after_passes dbx mz ds verbose i (Suc k) f =
     (case x_pass dbx mz ds verbose i f of
        Inl e \<Rightarrow> Inl e
      | Inr g \<Rightarrow> after_passes dbx mz ds verbose (Suc i) k g)"

definition pass_converges ::
  "derive_by_x \<Rightarrow> minuit \<Rightarrow> dataset \<Rightarrow> bool \<Rightarrow> nat \<Rightarrow> nat \<Rightarrow> fit \<Rightarrow> bool" where
  "pass_converges dbx mz ds verbose i k f =
     (case after_passes dbx mz ds verbose i k f of
        Inl e \<Rightarrow> False
      | Inr a \<Rightarrow>
          (case x_pass dbx mz ds verbose (i + k) a of
             Inl e \<Rightarrow> False
           | Inr b \<Rightarrow> allclose (current_cov_mat a) (current_cov_mat b) 0 (1 / 10 ^ 4)))"

fun is_minimize :: "minuit_call \<Rightarrow> bool" where
  "is_minimize (Minimize final_fit verbosity) = True"
| "is_minimize c = False"

definition minimize_calls :: "fit \<Rightarrow> nat" where
  "minimize_calls f =
     (case minimizer f of None \<Rightarrow> 0 | Some calls \<Rightarrow> length (filter is_minimize calls))"

text \<open>
  Examples for the loop: two points with the \<open>y\<close> variance \<open>4\<close> and the \<open>x\<close> variance \<open>5\<close>,
  the exact derivative of the example line, a minimizer that always answers the slope \<open>3\<close>
  and one whose answer alternates between the slopes \<open>3\<close> and \<open>1\<close>.
\<close>

definition example_slope :: derive_by_x where
  "example_slope xs steps ps = map (\<lambda>x. ps ! 0) xs"

definition steady_minuit :: minuit where
  "steady_minuit f = ([3, 2], [1 / 10, 1 / 10])"

definition alternating_minuit :: minuit where
  "alternating_minuit f =
     (if current_parameter_values f = [1, 2] then [3, 2] else [1, 2], [1 / 10, 1 / 10])"

definition loop_dataset :: dataset where
  "loop_dataset =
     \<lparr>get_data_x = [1, 2],
      get_cov_mat_x = [[5, 0], [0, 5]],
      get_cov_mat_y = [[4, 0], [0, 4]],
      has_errors_x = True\<rparr>"

definition loop_fit :: fit where
  "loop_fit = example_fit\<lparr>current_cov_mat := [[4, 0], [0, 4]]\<rparr>"

section \<open>Properties of the parameter lifecycle\<close>

lemma py_index_neg:
  "1 \<le> k \<Longrightarrow> k \<le> n \<Longrightarrow> py_index n (- int k) = Inr (n - k)"
  by (auto simp: py_index_def Let_def nat_diff_distrib)

lemma count_true_update: "count_true (xs[k := b]) \<le> Suc (count_true xs)"
  unfolding count_true_def
  by (induction xs arbitrary: k) (auto split: nat.splits)

lemma priv_find_parameter_cong:
  "current_parameter_values g = current_parameter_values f \<Longrightarrow>
   parameter_names g = parameter_names f \<Longrightarrow>
   priv_find_parameter g p = priv_find_parameter f p"
  by (cases p) (simp_all add: priv_find_parameter_def)

lemma fix_parameters_Cons:
  assumes "fix_parameters f (p # ps) = Inr g"
  obtains par_id calls k where
    "priv_find_parameter f p = Inr (Some par_id)"
    "minimizer f = Some calls"
    "py_index (length (priv_fixed_parameters f)) par_id = Inr k"
    "fix_parameters
       (f\<lparr>minimizer := Some (calls @ [FixParameter par_id]),
          number_of_fixed_parameters := number_of_fixed_parameters f + 1,
          priv_fixed_parameters := (priv_fixed_parameters f)[k := True]\<rparr>) ps = Inr g"
  using assms by (simp split: sum.splits option.splits)

lemma constrain_loop_Cons:
  assumes "constrain_loop f32 f i (p # ps) vals errs = Inr g"
  obtains par_id targets sigmas kt ks kc where
    "priv_find_parameter f p = Inr (Some par_id)"
    "constrained_parameters f = Some (targets, sigmas)"
    "py_index (length (priv_constrained_parameters f)) par_id = Inr kc"
    "constrain_loop f32
       (f\<lparr>constrained_parameters := Some (targets[kt := f32 (vals ! i)], sigmas[ks := f32 (errs ! i)]),
          number_of_constrained_parameters := number_of_constrained_parameters f + 1,
          priv_constrained_parameters := (priv_constrained_parameters f)[kc := True]\<rparr>)
       (Suc i) ps vals errs = Inr g"
  using assms by (simp split: sum.splits option.splits if_splits prod.splits)

lemma fix_parameters_fields:
  "fix_parameters f ps = Inr g \<Longrightarrow>
     number_of_fixed_parameters g = number_of_fixed_parameters f + int (length ps) \<and>
     number_of_parameters g = number_of_parameters f \<and>
     number_of_constrained_parameters g = number_of_constrained_parameters f"
proof (induction ps arbitrary: f)
  case Nil
  then show ?case by simp
next
  case (Cons p ps)
  from Cons.prems show ?case
    by (rule fix_parameters_Cons) (use Cons.IH in force)
qed

lemma constrain_loop_fields:
  "constrain_loop f32 f i ps vals errs = Inr g \<Longrightarrow>
     number_of_constrained_parameters g = number_of_constrained_parameters f + int (length ps) \<and>
     number_of_parameters g = number_of_parameters f \<and>
     number_of_fixed_parameters g = number_of_fixed_parameters f"
proof (induction ps arbitrary: f i)
  case Nil
  then show ?case by simp
next
  case (Cons p ps)
  from Cons.prems show ?case
    by (rule constrain_loop_Cons) (use Cons.IH in force)
qed

text \<open>
  Fixing one parameter twice sets one flag: the second call resolves the reference to the
  position the first call resolved it to.
\<close>

lemma fix_twice_flags:
  assumes f1: "fix_parameters f [p] = Inr f1" and h: "fix_parameters f1 [p] = Inr h"
  shows "\<exists>k. priv_fixed_parameters h = (priv_fixed_parameters f)[k := True]"
proof -
  from f1 obtain par_id calls k where
    a: "priv_find_parameter f p = Inr (Some par_id)"
       "py_index (length (priv_fixed_parameters f)) par_id = Inr k"
    and f1_eq: "f1 = f\<lparr>minimizer := Some (calls @ [FixParameter par_id]),
          number_of_fixed_parameters := number_of_fixed_parameters f + 1,
          priv_fixed_parameters := (priv_fixed_parameters f)[k := True]\<rparr>"
    by (rule fix_parameters_Cons) auto
  have same: "priv_find_parameter f1 p = priv_find_parameter f p"
    by (rule priv_find_parameter_cong) (simp_all add: f1_eq)
  from h obtain par_id' calls' k' where
    b: "priv_find_parameter f1 p = Inr (Some par_id')"
       "py_index (length (priv_fixed_parameters f1)) par_id' = Inr k'"
    and h_eq: "h = f1\<lparr>minimizer := Some (calls' @ [FixParameter par_id']),
          number_of_fixed_parameters := number_of_fixed_parameters f1 + 1,
          priv_fixed_parameters := (priv_fixed_parameters f1)[k' := True]\<rparr>"
    by (rule fix_parameters_Cons) auto
  from a b same have "par_id' = par_id" by simp
  with a b have "k' = k" by (simp add: f1_eq)
  then have "priv_fixed_parameters h = (priv_fixed_parameters f)[k := True]"
    by (simp add: h_eq f1_eq)
  then show ?thesis ..
qed

lemma constrain_twice_flags:
  assumes f1: "constrain_loop f32 f i [p] vals errs = Inr f1"
    and h: "constrain_loop f32 f1 j [p] vals' errs' = Inr h"
  shows "\<exists>k. priv_constrained_parameters h = (priv_constrained_parameters f)[k := True]"
proof -
  from f1 obtain par_id targets sigmas kt ks kc where
    a: "priv_find_parameter f p = Inr (Some par_id)"
       "py_index (length (priv_constrained_parameters f)) par_id = Inr kc"
    and f1_eq: "f1 = f\<lparr>constrained_parameters :=
                         Some (targets[kt := f32 (vals ! i)], sigmas[ks := f32 (errs ! i)]),
          number_of_constrained_parameters := number_of_constrained_parameters f + 1,
          priv_constrained_parameters := (priv_constrained_parameters f)[kc := True]\<rparr>"
    by (rule constrain_loop_Cons) auto
  have same: "priv_find_parameter f1 p = priv_find_parameter f p"
    by (rule priv_find_parameter_cong) (simp_all add: f1_eq)
  from h obtain par_id' targets' sigmas' kt' ks' kc' where
    b: "priv_find_parameter f1 p = Inr (Some par_id')"
       "py_index (length (priv_constrained_parameters f1)) par_id' = Inr kc'"
    and h_eq: "h = f1\<lparr>constrained_parameters :=
                         Some (targets'[kt' := f32 (vals' ! j)], sigmas'[ks' := f32 (errs' ! j)]),
          number_of_constrained_parameters := number_of_constrained_parameters f1 + 1,
          priv_constrained_parameters := (priv_constrained_parameters f1)[kc' := True]\<rparr>"
    by (rule constrain_loop_Cons) auto
  from a b same have "par_id' = par_id" by simp
  with a b have "kc' = kc" by (simp add: f1_eq)
  then have "priv_constrained_parameters h = (priv_constrained_parameters f)[kc := True]"
    by (simp add: h_eq f1_eq)
  then show ?thesis ..
qed

text \<open>
  C5. \<^verbatim>\<open>set_parameters\<close> with two positional arguments is expected to refuse an error
  list whose length is not the number of parameters. On the two-parameter \<^verbatim>\<open>Fit\<close> the call
  \<^verbatim>\<open>set_parameters([1., 2.], [0.1])\<close> returns normally: the guard in front of the
  assignment tests the length of the values a second time, so the one-element list becomes
  \<^verbatim>\<open>current_parameter_errors\<close> and is sent on to the minimizer.
\<close>

theorem set_parameters_accepts_short_error_list:
  "set_parameters example_fit [Some [1, 2], Some [1 / 10]] [] False =
     Inr (example_fit\<lparr>current_parameter_errors := [1 / 10],
            minimizer := Some [SetParameterValues [1, 2], SetParameterErrors [1 / 10]]\<rparr>)"
  by (simp add: example_fit_def set_parameters_def update_minimizer_def)

text \<open>
  C6. A value given without an error is expected to get the error \<open>value / 10\<close>, and
  \<open>0.1\<close> when the value is \<open>0\<close>. The keyword form with the bare value \<open>0\<close>,
  \<^verbatim>\<open>set_parameters(a=0., no_warning=True)\<close>, stores the error \<open>0\<close>; the positional form
  \<^verbatim>\<open>set_parameters([0., 2.], no_warning=True)\<close> stores \<open>0.1\<close> for the same value.
\<close>

theorem set_parameters_keyword_zero_error:
  "set_parameters example_fit [] [(KeyStr ''a'', Bare 0)] True =
     Inr (example_fit\<lparr>current_parameter_values := [0, 2],
            current_parameter_errors := [0, 2 / 10],
            minimizer := Some [SetParameterValues [0, 2], SetParameterErrors [0, 2 / 10]]\<rparr>) \<and>
   set_parameters example_fit [Some [0, 2]] [] True =
     Inr (example_fit\<lparr>current_parameter_values := [0, 2],
            current_parameter_errors := [1 / 10, 2 / 10],
            minimizer :=
              Some [SetParameterValues [0, 2], SetParameterErrors [1 / 10, 2 / 10]]\<rparr>)"
  by (simp add: example_fit_def set_parameters_def update_minimizer_def
        priv_find_parameter_def py_index_def)

text \<open>
  C7. \<^verbatim>\<open>release_parameters()\<close> without arguments is expected to undo
  \<^verbatim>\<open>fix_parameters\<close>. After \<^verbatim>\<open>fix_parameters(0)\<close> the call \<^verbatim>\<open>release_parameters()\<close>
  tells the minimizer to release both parameters, and leaves the flag of parameter \<open>0\<close>
  set and the counter of fixed parameters at \<open>1\<close>.
\<close>

theorem release_all_keeps_flags_and_counter:
  "and_then (fix_parameters example_fit [ById 0]) (\<lambda>g. release_parameters g []) =
     Inr (example_fit\<lparr>minimizer :=
                         Some [FixParameter 0, ReleaseParameter 0, ReleaseParameter 1],
            number_of_fixed_parameters := 1,
            priv_fixed_parameters := [True, False]\<rparr>)"
  by (simp add: and_then_def example_fit_def release_parameters_def priv_find_parameter_def
        py_index_def upt_rec)

text \<open>
  C9. \<^verbatim>\<open>fix_parameters\<close> and \<^verbatim>\<open>constrain_parameters\<close> add one to their counter for
  every argument of a call that returns, whatever the flags were: the counter grows by the
  number of arguments and so does the number of degrees of freedom. Two calls on one
  parameter add two to the counter and set at most one more flag.
\<close>

theorem counters_grow_with_every_argument:
  "(fix_parameters f ps = Inr g \<longrightarrow>
      number_of_fixed_parameters g = number_of_fixed_parameters f + int (length ps) \<and>
      ndf n g = ndf n f + int (length ps)) \<and>
   (constrain_parameters f32 f ps vals errs = Inr g' \<longrightarrow>
      number_of_constrained_parameters g' =
        number_of_constrained_parameters f + int (length ps) \<and>
      ndf n g' = ndf n f + int (length ps)) \<and>
   (and_then (fix_parameters f [p]) (\<lambda>f1. fix_parameters f1 [p]) = Inr h \<longrightarrow>
      number_of_fixed_parameters h = number_of_fixed_parameters f + 2 \<and>
      count_true (priv_fixed_parameters h) \<le> count_true (priv_fixed_parameters f) + 1 \<and>
      ndf n h = ndf n f + 2) \<and>
   (and_then (constrain_parameters f32 f [p] [v] [s]) (\<lambda>f1. constrain_parameters f32 f1 [p] [v'] [s'])
      = Inr h' \<longrightarrow>
      number_of_constrained_parameters h' = number_of_constrained_parameters f + 2 \<and>
      count_true (priv_constrained_parameters h') \<le>
        count_true (priv_constrained_parameters f) + 1 \<and>
      ndf n h' = ndf n f + 2)"
proof (intro conjI impI)
  assume a: "fix_parameters f ps = Inr g"
  from fix_parameters_fields [OF a]
  show "number_of_fixed_parameters g = number_of_fixed_parameters f + int (length ps)"
    and "ndf n g = ndf n f + int (length ps)"
    by (simp_all add: ndf_def)
next
  assume a: "constrain_parameters f32 f ps vals errs = Inr g'"
  then have "constrain_loop f32 f 0 ps vals errs = Inr g'"
    by (simp add: constrain_parameters_def)
  from constrain_loop_fields [OF this]
  show "number_of_constrained_parameters g' =
          number_of_constrained_parameters f + int (length ps)"
    and "ndf n g' = ndf n f + int (length ps)"
    by (simp_all add: ndf_def)
next
  assume a: "and_then (fix_parameters f [p]) (\<lambda>f1. fix_parameters f1 [p]) = Inr h"
  then obtain f1 where f1: "fix_parameters f [p] = Inr f1" and h: "fix_parameters f1 [p] = Inr h"
    by (cases "fix_parameters f [p]") (simp_all add: and_then_def)
  from fix_parameters_fields [OF f1] fix_parameters_fields [OF h]
  show "number_of_fixed_parameters h = number_of_fixed_parameters f + 2"
    and "ndf n h = ndf n f + 2"
    by (simp_all add: ndf_def)
  from fix_twice_flags [OF f1 h] obtain k where
    "priv_fixed_parameters h = (priv_fixed_parameters f)[k := True]" ..
  then show "count_true (priv_fixed_parameters h) \<le> count_true (priv_fixed_parameters f) + 1"
    by (simp add: count_true_update)
next
  assume a: "and_then (constrain_parameters f32 f [p] [v] [s])
               (\<lambda>f1. constrain_parameters f32 f1 [p] [v'] [s']) = Inr h'"
  then obtain f1 where f1: "constrain_loop f32 f 0 [p] [v] [s] = Inr f1"
    and h: "constrain_loop f32 f1 0 [p] [v'] [s'] = Inr h'"
    by (cases "constrain_parameters f32 f [p] [v] [s]")
       (simp_all add: and_then_def constrain_parameters_def)
  from constrain_loop_fields [OF f1] constrain_loop_fields [OF h]
  show "number_of_constrained_parameters h' = number_of_constrained_parameters f + 2"
    and "ndf n h' = ndf n f + 2"
    by (simp_all add: ndf_def)
  from constrain_twice_flags [OF f1 h] obtain k where
    "priv_constrained_parameters h' = (priv_constrained_parameters f)[k := True]" ..
  then show "count_true (priv_constrained_parameters h') \<le>
               count_true (priv_constrained_parameters f) + 1"
    by (simp add: count_true_update)
qed

text \<open>
  The theorem on the example: parameter \<open>0\<close> fixed twice and constrained twice, on a
  dataset of five points. One flag of each kind is set, each counter is \<open>2\<close>, and the number
  of degrees of freedom goes from \<open>3\<close> to \<open>5\<close>.
\<close>

theorem counters_grow_with_every_argument_witness:
  "fix_parameters example_fit [ById 0, ById 0] =
     Inr (example_fit\<lparr>minimizer := Some [FixParameter 0, FixParameter 0],
            number_of_fixed_parameters := 2, priv_fixed_parameters := [True, False]\<rparr>) \<and>
   constrain_parameters example_float32 example_fit [ById 0, ById 0] [3, 4] [1, 1] =
     Inr (example_fit\<lparr>constrained_parameters := Some ([4, 0], [1, 0]),
            number_of_constrained_parameters := 2,
            priv_constrained_parameters := [True, False]\<rparr>) \<and>
   and_then (fix_parameters example_fit [ById 0]) (\<lambda>f1. fix_parameters f1 [ById 0]) =
     Inr (example_fit\<lparr>minimizer := Some [FixParameter 0, FixParameter 0],
            number_of_fixed_parameters := 2, priv_fixed_parameters := [True, False]\<rparr>) \<and>
   and_then (constrain_parameters example_float32 example_fit [ById 0] [3] [1])
       (\<lambda>f1. constrain_parameters example_float32 f1 [ById 0] [4] [1]) =
     Inr (example_fit\<lparr>constrained_parameters := Some ([4, 0], [1, 0]),
            number_of_constrained_parameters := 2,
            priv_constrained_parameters := [True, False]\<rparr>) \<and>
   ndf 5 example_fit = 3 \<and>
   ndf 5 (example_fit\<lparr>minimizer := Some [FixParameter 0, FixParameter 0],
            number_of_fixed_parameters := 2, priv_fixed_parameters := [True, False]\<rparr>) = 5 \<and>
   ndf 5 (example_fit\<lparr>constrained_parameters := Some ([4, 0], [1, 0]),
            number_of_constrained_parameters := 2,
            priv_constrained_parameters := [True, False]\<rparr>) = 5 \<and>
   count_true (priv_fixed_parameters example_fit) = 0 \<and>
   count_true [True, False] = 1"
  using counters_grow_with_every_argument
    [where f = example_fit and ps = "[ById 0, ById 0]" and n = 5
       and g = "example_fit\<lparr>minimizer := Some [FixParameter 0, FixParameter 0],
            number_of_fixed_parameters := 2, priv_fixed_parameters := [True, False]\<rparr>"
       and ?f32.0 = example_float32 and vals = "[3, 4]" and errs = "[1, 1]"
       and g' = "example_fit\<lparr>constrained_parameters := Some ([4, 0], [1, 0]),
            number_of_constrained_parameters := 2,
            priv_constrained_parameters := [True, False]\<rparr>"
       and p = "ById 0"
       and h = "example_fit\<lparr>minimizer := Some [FixParameter 0, FixParameter 0],
            number_of_fixed_parameters := 2, priv_fixed_parameters := [True, False]\<rparr>"
       and v = 3 and s = 1 and v' = 4 and s' = 1
       and h' = "example_fit\<lparr>constrained_parameters := Some ([4, 0], [1, 0]),
            number_of_constrained_parameters := 2,
            priv_constrained_parameters := [True, False]\<rparr>"]
  by (simp add: example_fit_def priv_find_parameter_def py_index_def ndf_def and_then_def
        constrain_parameters_def count_true_def example_float32_def)

text \<open>
  C10. A negative integer \<open>- k\<close> with \<open>1 \<le> k \<le> n\<close> is accepted as a parameter reference
  by \<^verbatim>\<open>fix_parameters\<close>, \<^verbatim>\<open>release_parameters\<close> and \<^verbatim>\<open>constrain_parameters\<close>: the entry
  \<open>n - k\<close> of the arrays of the \<^verbatim>\<open>Fit\<close> is the one changed, and the minimizer is given the
  reference \<open>- k\<close> as it came. The target and the \<open>sigma\<close> of a constraint arrive in that entry
  in single precision. \<^verbatim>\<open>set_parameters\<close> cannot be given an integer on its keyword path: a
  keyword that is not a string raises \<^verbatim>\<open>TypeError\<close>.
\<close>

theorem negative_index_reaches_parameter:
  assumes "well_formed f"
    and "minimizer f = Some calls"
    and "constrained_parameters f = Some (targets, sigmas)"
    and "1 \<le> k" and "k \<le> number_of_parameters f"
  shows "fix_parameters f [ById (- int k)] =
           Inr (f\<lparr>minimizer := Some (calls @ [FixParameter (- int k)]),
                  number_of_fixed_parameters := number_of_fixed_parameters f + 1,
                  priv_fixed_parameters :=
                    (priv_fixed_parameters f)[number_of_parameters f - k := True]\<rparr>) \<and>
         release_parameters f [ById (- int k)] =
           Inr (f\<lparr>minimizer := Some (calls @ [ReleaseParameter (- int k)]),
                  number_of_fixed_parameters := number_of_fixed_parameters f - 1,
                  priv_fixed_parameters :=
                    (priv_fixed_parameters f)[number_of_parameters f - k := False]\<rparr>) \<and>
         constrain_parameters f32 f [ById (- int k)] [v] [s] =
           Inr (f\<lparr>constrained_parameters :=
                    Some (targets[number_of_parameters f - k := f32 v],
                          sigmas[number_of_parameters f - k := f32 s]),
                  number_of_constrained_parameters := number_of_constrained_parameters f + 1,
                  priv_constrained_parameters :=
                    (priv_constrained_parameters f)[number_of_parameters f - k := True]\<rparr>) \<and>
         set_parameters f [] ((KeyInt (- int k), spec) # kwargs) no_warning = Inl TypeError"
  using assms
  by (simp add: well_formed_def priv_find_parameter_def py_index_neg release_parameters_def
        constrain_parameters_def set_parameters_def)

theorem negative_index_reaches_parameter_witness:
  "well_formed example_fit \<and>
   minimizer example_fit = Some [] \<and>
   constrained_parameters example_fit = Some ([0, 0], [0, 0]) \<and>
   (1::nat) \<le> 1 \<and> 1 \<le> number_of_parameters example_fit \<and>
   fix_parameters example_fit [ById (- 1)] =
     Inr (example_fit\<lparr>minimizer := Some [FixParameter (- 1)],
            number_of_fixed_parameters := 1, priv_fixed_parameters := [False, True]\<rparr>) \<and>
   release_parameters example_fit [ById (- 1)] =
     Inr (example_fit\<lparr>minimizer := Some [ReleaseParameter (- 1)],
            number_of_fixed_parameters := - 1, priv_fixed_parameters := [False, False]\<rparr>) \<and>
   constrain_parameters example_float32 example_fit [ById (- 1)] [3] [1 / 10] =
     Inr (example_fit\<lparr>constrained_parameters := Some ([0, 3], [0, 13421773 / 134217728]),
            number_of_constrained_parameters := 1,
            priv_constrained_parameters := [False, True]\<rparr>) \<and>
   set_parameters example_fit [] [(KeyInt (- 1), Bare 5)] False = Inl TypeError"
  using negative_index_reaches_parameter
    [where f = example_fit and calls = "[]" and targets = "[0, 0]" and sigmas = "[0, 0]"
       and k = 1 and ?f32.0 = example_float32 and v = 3 and s = "1 / 10" and spec = "Bare 5"
       and kwargs = "[]" and no_warning = False]
  by (simp add: example_fit_def well_formed_def example_float32_def)

text \<open>
  The keyword path of \<^verbatim>\<open>set_parameters\<close> with the key \<open>-1\<close>: the call raises, and no
  parameter is set.
\<close>

theorem set_parameters_integer_keyword_raises:
  "set_parameters example_fit [] [(KeyInt (- 1), Bare 5)] False = Inl TypeError"
  by (simp add: set_parameters_def)

section \<open>Properties of the objective function\<close>

lemma np_sub_residual:
  "length ys = length xs \<Longrightarrow>
   np_sub ys (map (\<lambda>x. f x p) xs) = Inr (residual_vector f xs ys p)"
  by (auto simp: np_sub_def residual_vector_def intro!: nth_equalityI)

lemma dot_sum: "length u = length v \<Longrightarrow> dot u v = (\<Sum>i<length u. u ! i * v ! i)"
  by (simp add: dot_def sum_list_sum_nth atLeast0LessThan)

lemma transpose_square:
  assumes "square n M"
  shows "transpose M = map (\<lambda>j. map (\<lambda>i. M ! i ! j) [0..<n]) [0..<n]"
proof -
  from assms have len: "length M = n" and rows: "\<And>i. i < length M \<Longrightarrow> length (M ! i) = n"
    by (simp_all add: square_def list_all_length)
  have "transpose M = map (\<lambda>j. map (\<lambda>i. M ! i ! j) [0..<length M]) [0..<n]"
    by (rule transpose_rectangle) (use len rows in auto)
  then show ?thesis by (simp add: len)
qed

text \<open>The two \<^verbatim>\<open>dot\<close> calls of the code compute the quadratic form.\<close>

lemma quadratic_form_code:
  assumes "square (length r) M"
  shows "dot (vec_mat r M) r = quadratic_form r M"
proof -
  let ?n = "length r"
  have "dot (vec_mat r M) r = (\<Sum>j<?n. dot r (map (\<lambda>i. M ! i ! j) [0..<?n]) * r ! j)"
    by (simp add: vec_mat_def transpose_square [OF assms] dot_sum)
  also have "\<dots> = (\<Sum>j<?n. (\<Sum>i<?n. r ! i * M ! i ! j) * r ! j)"
    by (simp add: dot_sum)
  also have "\<dots> = (\<Sum>j<?n. \<Sum>i<?n. r ! i * M ! i ! j * r ! j)"
    by (simp add: sum_distrib_right)
  also have "\<dots> = (\<Sum>i<?n. \<Sum>j<?n. r ! i * M ! i ! j * r ! j)"
    by (rule sum.swap)
  finally show ?thesis by (simp add: quadratic_form_def)
qed

text \<open>The loop over the constraints, started at position \<open>i\<close> with the value \<open>c\<close>.\<close>

lemma apply_constraints_sum:
  "i + length sigmas \<le> length p \<Longrightarrow> i + length sigmas \<le> length targets \<Longrightarrow>
   apply_constraints p targets i sigmas c =
     Inr (c + (\<Sum>j<length sigmas.
                 if sigmas ! j \<noteq> 0 then ((p ! (i + j) - targets ! (i + j)) / sigmas ! j)\<^sup>2
                 else 0))"
proof (induction sigmas arbitrary: i c)
  case Nil
  then show ?case by simp
next
  case (Cons err rest)
  then have IH: "\<And>c. apply_constraints p targets (Suc i) rest c =
     Inr (c + (\<Sum>j<length rest.
                 if rest ! j \<noteq> 0 then ((p ! (Suc i + j) - targets ! (Suc i + j)) / rest ! j)\<^sup>2
                 else 0))"
    by simp
  from Cons.prems show ?case
    by (simp add: IH sum.lessThan_Suc_shift Let_def power2_eq_square del: sum.lessThan_Suc
          cong: if_cong)
qed

lemma apply_constraints_all_zero:
  "list_all (\<lambda>s. s = 0) sigmas \<Longrightarrow> apply_constraints p targets i sigmas c = Inr c"
  by (induction sigmas arbitrary: i) simp_all

lemma apply_constraints_target_irrelevant:
  "\<forall>j<length sigmas. i + j = k \<longrightarrow> sigmas ! j = 0 \<Longrightarrow>
   apply_constraints p (targets[k := t]) i sigmas c = apply_constraints p targets i sigmas c"
proof (induction sigmas arbitrary: i c)
  case Nil
  then show ?case by simp
next
  case (Cons err rest)
  have rest: "\<forall>j<length rest. Suc i + j = k \<longrightarrow> rest ! j = 0"
    using Cons.prems by fastforce
  have here: "err \<noteq> 0 \<Longrightarrow> i \<noteq> k"
    using Cons.prems by fastforce
  show ?case
  proof (cases "err = 0")
    case True
    then show ?thesis by (simp add: Cons.IH [OF rest])
  next
    case False
    then have "k \<noteq> i" using here by simp
    then show ?thesis by (simp add: Cons.IH [OF rest] Let_def)
  qed
qed

text \<open>
  C3. For data of one length, a covariance matrix \<open>C\<close> whose inverse \<open>Ci\<close> numpy returns,
  and constraint arrays no longer than the parameter vector, \<^verbatim>\<open>chi2\<close> returns the quadratic
  form \<open>r\<^sup>T Ci r\<close> of the residual vector \<open>r = y - f(x; p)\<close>, plus the penalty
  \<open>((p\<^sub>i - target\<^sub>i) / sigma\<^sub>i)\<^sup>2\<close> of every parameter with \<open>sigma\<^sub>i \<noteq> 0\<close> when constraints
  are passed. When \<open>f\<close> reproduces \<open>y\<close> and no constraint is active the value is \<open>0\<close>,
  for the identity as for every other matrix.
\<close>

theorem chi2_quadratic_form_plus_penalties:
  assumes "length ydata = length xdata"
    and "matI C = Some Ci"
    and "square (length xdata) Ci"
    and "length sigmas \<le> length p" and "length sigmas \<le> length targets"
  shows "chi2 matI xdata ydata C f p None =
           Inr (quadratic_form (residual_vector f xdata ydata p) Ci) \<and>
         chi2 matI xdata ydata C f p (Some (targets, sigmas)) =
           Inr (quadratic_form (residual_vector f xdata ydata p) Ci + penalty p targets sigmas) \<and>
         (map (\<lambda>x. f x p) xdata = ydata \<longrightarrow>
            chi2 matI xdata ydata C f p None = Inr 0 \<and>
            (list_all (\<lambda>s. s = 0) sigmas \<longrightarrow>
               chi2 matI xdata ydata C f p (Some (targets, sigmas)) = Inr 0))"
proof -
  let ?r = "residual_vector f xdata ydata p"
  have len: "length ?r = length xdata" by (simp add: residual_vector_def)
  have sq: "square (length ?r) Ci" using assms(3) by (simp add: len)
  have q: "dot (vec_mat ?r Ci) ?r = quadratic_form ?r Ci"
    by (rule quadratic_form_code [OF sq])
  have none: "chi2 matI xdata ydata C f p None = Inr (quadratic_form ?r Ci)"
    using assms(1,2) sq by (simp add: chi2_def np_sub_residual q)
  have pen: "apply_constraints p targets 0 sigmas c = Inr (c + penalty p targets sigmas)" for c
    using apply_constraints_sum [of 0 sigmas p targets c] assms(4,5)
    by (simp add: penalty_def cong: if_cong)
  have some: "chi2 matI xdata ydata C f p (Some (targets, sigmas)) =
           Inr (quadratic_form ?r Ci + penalty p targets sigmas)"
    using assms(1,2) sq by (simp add: chi2_def np_sub_residual q pen)
  have zero: "quadratic_form ?r Ci = 0" if "map (\<lambda>x. f x p) xdata = ydata"
  proof -
    have "?r ! i = 0" if "i < length xdata" for i
      using that \<open>map (\<lambda>x. f x p) xdata = ydata\<close> [symmetric]
      by (simp add: residual_vector_def)
    then show ?thesis by (simp add: quadratic_form_def len)
  qed
  have pen0: "penalty p targets sigmas = 0" if "list_all (\<lambda>s. s = 0) sigmas"
    using that by (simp add: penalty_def list_all_length)
  show ?thesis
    using none some zero pen0 by simp
qed

text \<open>
  The theorem on the example: the points \<open>(1, 3)\<close> and \<open>(2, 5)\<close> with the variances \<open>2\<close>
  and \<open>4\<close>. For the line \<open>x + 1\<close> the residuals are \<open>1\<close> and \<open>2\<close> and the objective is
  \<open>3/2\<close>, and \<open>5/2\<close> with the constraint \<open>1/2 \<plusminus> 1/2\<close> on the second parameter; for the
  line \<open>2 x + 1\<close>, which passes through both points, it is \<open>0\<close>.
\<close>

theorem chi2_quadratic_form_plus_penalties_witness:
  "chi2 example_inverse [1, 2] [3, 5] [[2, 0], [0, 4]] example_line [1, 1] None = Inr (3 / 2) \<and>
   chi2 example_inverse [1, 2] [3, 5] [[2, 0], [0, 4]] example_line [1, 1]
     (Some ([0, 1 / 2], [0, 1 / 2])) = Inr (5 / 2) \<and>
   map (\<lambda>x. example_line x [2, 1]) [1, 2] = [3, 5] \<and>
   list_all (\<lambda>s. s = 0) [0, 0 :: real] \<and>
   chi2 example_inverse [1, 2] [3, 5] [[2, 0], [0, 4]] example_line [2, 1] None = Inr 0 \<and>
   chi2 example_inverse [1, 2] [3, 5] [[2, 0], [0, 4]] example_line [2, 1]
     (Some ([7, 8], [0, 0])) = Inr 0"
  using chi2_quadratic_form_plus_penalties
          [of "[3, 5]" "[1, 2]" example_inverse "[[2, 0], [0, 4]]" "[[1 / 2, 0], [0, 1 / 4]]"
              "[0, 1 / 2]" "[1, 1]" "[0, 1 / 2]" example_line]
        chi2_quadratic_form_plus_penalties
          [of "[3, 5]" "[1, 2]" example_inverse "[[2, 0], [0, 4]]" "[[1 / 2, 0], [0, 1 / 4]]"
              "[0, 0]" "[2, 1]" "[7, 8]" example_line]
  by (simp add: example_inverse_def example_line_def square_def
        quadratic_form_def residual_vector_def penalty_def lessThan_Suc upt_rec
        numeral_2_eq_2 power2_eq_square)

text \<open>
  C4. For every parameter vector, constraints whose \<open>sigma\<close> are all \<open>0\<close> give the value
  of the call without constraints, and the target recorded beside a \<open>sigma\<close> of \<open>0\<close> has no
  influence on the value: the loop passes over that parameter.
\<close>

theorem zero_sigma_is_no_constraint:
  "(list_all (\<lambda>s. s = 0) sigmas \<longrightarrow>
      chi2 matI xdata ydata C f p (Some (targets, sigmas)) = chi2 matI xdata ydata C f p None) \<and>
   (i < length sigmas \<and> sigmas ! i = 0 \<longrightarrow>
      chi2 matI xdata ydata C f p (Some (targets[i := t], sigmas)) =
      chi2 matI xdata ydata C f p (Some (targets, sigmas)))"
proof (intro conjI impI)
  assume "list_all (\<lambda>s. s = 0) sigmas"
  then show "chi2 matI xdata ydata C f p (Some (targets, sigmas)) = chi2 matI xdata ydata C f p None"
    by (simp add: chi2_def Let_def apply_constraints_all_zero split: sum.splits option.splits)
next
  assume "i < length sigmas \<and> sigmas ! i = 0"
  then have "\<forall>j<length sigmas. 0 + j = i \<longrightarrow> sigmas ! j = 0" by simp
  from apply_constraints_target_irrelevant [OF this]
  show "chi2 matI xdata ydata C f p (Some (targets[i := t], sigmas)) =
      chi2 matI xdata ydata C f p (Some (targets, sigmas))"
    by (simp add: chi2_def Let_def split: sum.splits option.splits)
qed

theorem zero_sigma_is_no_constraint_witness:
  "list_all (\<lambda>s. s = 0) [0, 0 :: real] \<and>
   chi2 example_inverse [1, 2] [3, 5] [[2, 0], [0, 4]] example_line [1, 1]
     (Some ([7, 8], [0, 0])) = Inr (3 / 2) \<and>
   chi2 example_inverse [1, 2] [3, 5] [[2, 0], [0, 4]] example_line [1, 1] None = Inr (3 / 2) \<and>
   (0::nat) < length [0, 1 / 2 :: real] \<and> [0, 1 / 2 :: real] ! 0 = 0 \<and>
   chi2 example_inverse [1, 2] [3, 5] [[2, 0], [0, 4]] example_line [1, 1]
     (Some ([9, 1 / 2], [0, 1 / 2])) =
   chi2 example_inverse [1, 2] [3, 5] [[2, 0], [0, 4]] example_line [1, 1]
     (Some ([7, 1 / 2], [0, 1 / 2]))"
  using zero_sigma_is_no_constraint
          [of "[0, 0]" example_inverse "[1, 2]" "[3, 5]" "[[2, 0], [0, 4]]" example_line
              "[1, 1]" "[7, 8]"]
        zero_sigma_is_no_constraint
          [of "[0, 1 / 2]" example_inverse "[1, 2]" "[3, 5]" "[[2, 0], [0, 4]]" example_line
              "[1, 1]" "[7, 1 / 2]" 0 9]
  by (simp add: chi2_def np_sub_def example_inverse_def example_line_def square_def dot_def
        vec_mat_def)

section \<open>Properties of \<^verbatim>\<open>round_to_significance\<close>\<close>













lemma floor_thousand: "\<lfloor>log 10 (1000 :: real)\<rfloor> = 3"
  using floor_log_eq_powr_iff [of "1000 :: real" 10 3]
  by simp




text \<open>
  The error \<open>1000.0\<close> with one significant digit: the weight of its first digit is \<open>1000\<close>,
  but the floor of the machine's quotient is \<open>2\<close>, and the value \<open>1234.5\<close> is rounded to the
  hundreds.
\<close>

lemma round_to_significance_at_thousand:
  "round_to_significance example_log_quotient (12345 / 10) 1000 1 = Inr (1200, 1000) \<and>
   \<lfloor>example_log_quotient 1000\<rfloor> = 2 \<and>
   decimal_place 1000 1 = 1000"
  by (simp add: round_to_significance_def example_log_quotient_def py_round_def Let_def
        decimal_place_def floor_thousand powr_minus_divide)

section \<open>Properties of the projection\<close>

lemma map2_nth:
  "length xs = n \<Longrightarrow> length ys = n \<Longrightarrow> map2 f xs ys = map (\<lambda>i. f (xs ! i) (ys ! i)) [0..<n]"
  by (auto intro!: nth_equalityI)

lemma map2_square:
  assumes "square n A" and "square n B"
  shows "map2 (map2 f) A B = map (\<lambda>i. map (\<lambda>j. f (A ! i ! j) (B ! i ! j)) [0..<n]) [0..<n]"
proof -
  from assms have len: "length A = n" "length B = n"
    and rows: "\<And>i. i < n \<Longrightarrow> length (A ! i) = n" "\<And>i. i < n \<Longrightarrow> length (B ! i) = n"
    by (simp_all add: square_def list_all_length)
  have "map2 (map2 f) A B = map (\<lambda>i. map2 f (A ! i) (B ! i)) [0..<n]"
    by (rule map2_nth) (rule len)+
  also have "\<dots> = map (\<lambda>i. map (\<lambda>j. f (A ! i ! j) (B ! i ! j)) [0..<n]) [0..<n]"
    by (rule map_cong [OF refl]) (simp add: map2_nth rows)
  finally show ?thesis .
qed

lemma square_map: "square n (map (\<lambda>i. map (g i) [0..<n]) [0..<n])"
  by (simp add: square_def list_all_length)

lemma outer_product_nth:
  "length v = n \<Longrightarrow> outer_product v = map (\<lambda>i. map (\<lambda>j. v ! i * v ! j) [0..<n]) [0..<n]"
  by (auto simp: outer_product_def intro!: nth_equalityI)

lemma min_list_zero:
  assumes "xs \<noteq> []" and "\<forall>x\<in>set xs. (0::real) \<le> x"
  shows "min_list xs = 0 \<longleftrightarrow> 0 \<in> set xs"
proof -
  have m: "min_list xs = Min (set xs)" by (rule min_list_Min [OF assms(1)])
  have fin: "finite (set xs)" "set xs \<noteq> {}" using assms(1) by simp_all
  show ?thesis
  proof
    assume "min_list xs = 0"
    then show "0 \<in> set xs" using Min_in [OF fin] m by simp
  next
    assume "0 \<in> set xs"
    then have "Min (set xs) \<le> 0" using fin by (simp add: Min_le)
    moreover have "0 \<le> Min (set xs)" using assms(2) fin by (simp add: Min_ge_iff)
    ultimately show "min_list xs = 0" using m by simp
  qed
qed

lemma steps_zero_iff:
  assumes "C \<noteq> []" and "\<forall>v\<in>set (np_diag C). 0 \<le> v"
  shows "min_list (precision_list C) = 0 \<longleftrightarrow> 0 \<in> set (np_diag C)"
proof -
  let ?ps = "precision_list C"
  have ne: "?ps \<noteq> []" using assms(1) by (simp add: precision_list_def np_diag_def)
  have nonneg: "\<forall>x\<in>set ?ps. 0 \<le> x" using assms(2) by (auto simp: precision_list_def)
  have "0 \<in> set ?ps \<longleftrightarrow> 0 \<in> set (np_diag C)"
    by (auto simp: precision_list_def)
  with min_list_zero [OF ne nonneg] show ?thesis by simp
qed

text \<open>
  What one projection step computes, for a current covariance matrix with a diagonal without
  negative entries and dataset matrices of one square shape. \<^verbatim>\<open>derive_by_x\<close> is given one step per
  data point: \<open>0.01\<close> times the square root of that point's own diagonal entry, and \<open>1e-7\<close>
  where the entry is zero; a zero entry raises the warning and no error. The new covariance
  matrix has the entries \<open>C\<^sub>y[i][j] + C\<^sub>x[i][j] \<cdot> (df/dx)\<^sub>i \<cdot> (df/dx)\<^sub>j\<close>.
\<close>

theorem projection_uses_one_step_per_point:
  assumes "current_cov_mat f \<noteq> []"
    and "\<forall>v\<in>set (np_diag (current_cov_mat f)). 0 \<le> v"
    and "square n (get_cov_mat_x ds)"
    and "square n (get_cov_mat_y ds)"
    and "steps = map (\<lambda>v. if v = 0 then 1 / 10 ^ 7 else (1 / 100) * sqrt v)
                     (np_diag (current_cov_mat f))"
    and "d = dbx (get_data_x ds) steps (current_parameter_values f)"
    and "length d = n"
  shows "project_x_covariance_matrix dbx ds f =
           Inr (f\<lparr>warnings := warnings f @
                     (if 0 \<in> set (np_diag (current_cov_mat f)) then [InputErrorZero] else []),
                  current_cov_mat :=
                    map (\<lambda>i. map (\<lambda>j. get_cov_mat_y ds ! i ! j
                                       + get_cov_mat_x ds ! i ! j * (d ! i * d ! j)) [0..<n])
                        [0..<n]\<rparr>)"
proof -
  let ?C = "current_cov_mat f"
  let ?ps = "precision_list ?C"
  let ?zero = "0 \<in> set (np_diag ?C)"
  have ne: "?ps \<noteq> []" using assms(1) by (simp add: precision_list_def np_diag_def)
  have z: "min_list ?ps = 0 \<longleftrightarrow> ?zero"
    by (rule steps_zero_iff [OF assms(1,2)])
  have outer: "outer_product d = map (\<lambda>i. map (\<lambda>j. d ! i * d ! j) [0..<n]) [0..<n]"
    by (rule outer_product_nth [OF assms(7)])
  have proj: "map2 (map2 (*)) (get_cov_mat_x ds) (outer_product d) =
      map (\<lambda>i. map (\<lambda>j. get_cov_mat_x ds ! i ! j * (d ! i * d ! j)) [0..<n]) [0..<n]"
    unfolding outer
    by (simp add: map2_square [OF assms(3) square_map] cong: map_cong)
  have total: "map2 (map2 (+)) (get_cov_mat_y ds)
        (map2 (map2 (*)) (get_cov_mat_x ds) (outer_product d)) =
      map (\<lambda>i. map (\<lambda>j. get_cov_mat_y ds ! i ! j
                         + get_cov_mat_x ds ! i ! j * (d ! i * d ! j)) [0..<n]) [0..<n]"
    unfolding proj
    by (simp add: map2_square [OF assms(4) square_map] cong: map_cong)
  show ?thesis
  proof (cases ?zero)
    case True
    with z have mz: "min_list ?ps = 0" by blast
    have st: "replace_zero_steps ?ps = steps"
      by (simp add: assms(5) replace_zero_steps_def precision_list_def)
    have "project_x_covariance_matrix dbx ds f =
            Inr (f\<lparr>warnings := warnings f @ [InputErrorZero],
                   current_cov_mat :=
                     map2 (map2 (+)) (get_cov_mat_y ds)
                       (map2 (map2 (*)) (get_cov_mat_x ds)
                          (outer_product
                             (dbx (get_data_x ds) (replace_zero_steps ?ps)
                                (current_parameter_values f))))\<rparr>)"
      using ne mz by (simp add: project_x_covariance_matrix_def Let_def)
    then show ?thesis
      using True by (simp add: st assms(6) [symmetric] total)
  next
    case False
    with z have mz: "min_list ?ps \<noteq> 0" by blast
    from False have st: "?ps = steps"
      by (auto simp: assms(5) precision_list_def)
    have "project_x_covariance_matrix dbx ds f =
            Inr (f\<lparr>current_cov_mat :=
                     map2 (map2 (+)) (get_cov_mat_y ds)
                       (map2 (map2 (*)) (get_cov_mat_x ds)
                          (outer_product
                             (dbx (get_data_x ds) ?ps (current_parameter_values f))))\<rparr>)"
      using ne mz by (simp add: project_x_covariance_matrix_def Let_def)
    then show ?thesis
      using False by (simp add: st assms(6) [symmetric] total)
  qed
qed

text \<open>
  The theorem on the example: the line of slope \<open>3\<close> differentiated by forward differences,
  a first point without \<open>y\<close> error. The steps are \<open>1e-7\<close> and \<open>0.02\<close>, the warning is logged,
  and \<open>9 \<cdot> 1/4\<close> is added to both variances.
\<close>

theorem projection_uses_one_step_per_point_witness:
  "project_x_covariance_matrix (forward_difference example_line) example_dataset
       (example_fit\<lparr>current_parameter_values := [3, 2], current_cov_mat := [[0, 0], [0, 4]]\<rparr>) =
     Inr (example_fit\<lparr>current_parameter_values := [3, 2],
            warnings := [InputErrorZero],
            current_cov_mat := [[9 / 4, 0], [0, 25 / 4]]\<rparr>) \<and>
   np_diag [[0, 0], [0, 4 :: real]] = [0, 4] \<and>
   map (\<lambda>v. if v = 0 then 1 / 10 ^ 7 else (1 / 100) * sqrt v) [0, 4] = [1 / 10 ^ 7, 2 / 100] \<and>
   forward_difference example_line [1, 2] [1 / 10 ^ 7, 2 / 100] [3, 2] = [3, 3]"
  using projection_uses_one_step_per_point [of "example_fit\<lparr>current_parameter_values := [3, 2],
                     current_cov_mat := [[0, 0], [0, 4]]\<rparr>"
               2 example_dataset "[1 / 10 ^ 7, 2 / 100]" "[3, 3]"
               "forward_difference example_line"]
  by (simp add: example_fit_def example_dataset_def square_def forward_difference_def
        example_line_def np_diag_def upt_rec numeral_2_eq_2)

text \<open>
  C2. The projection is expected to differentiate at every data point with the one step
  \<open>0.01\<close> times the square root of the smallest diagonal entry of the current covariance
  matrix, as the comment in front of the computation announces
  (\<^verbatim>\<open>use 1/100th of the smallest error as spacing for df/dx\<close>) and as
  \<^verbatim>\<open>get_function_error\<close> does for the parameters. For two points with the variances \<open>1\<close> and
  \<open>4\<close> that step is \<open>0.01\<close>, but the second point is differentiated with the step \<open>0.02\<close>:
  the list of steps is not the single step repeated. The derivative routine that returns the
  steps it was given makes them visible in the projected matrix.
\<close>

theorem projection_steps_differ_between_points:
  "project_x_covariance_matrix steps_probe example_dataset
       (example_fit\<lparr>current_cov_mat := [[1, 0], [0, 4]]\<rparr>) =
     Inr (example_fit\<lparr>current_cov_mat := [[1 / 40000, 0], [0, 4 + 1 / 10000]]\<rparr>) \<and>
   precision_list [[1, 0], [0, 4]] = [1 / 100, 2 / 100] \<and>
   precision_list [[1, 0], [0, 4]] \<noteq>
     replicate 2 ((1 / 100) * sqrt (min_list (np_diag [[1, 0], [0, 4]])))"
  by (simp add: precision_list_def np_diag_def upt_rec project_x_covariance_matrix_def
        steps_probe_def example_dataset_def example_fit_def outer_product_def Let_def
        numeral_2_eq_2)


section \<open>Properties of the loop of \<^verbatim>\<open>do_fit\<close>\<close>

lemma x_iterations_unfold:
  "x_iterations dbx mz ds verbose i f =
     (if i < max_x_iterations then
        (case x_pass dbx mz ds verbose i f of
           Inl e \<Rightarrow> Inl e
         | Inr f2 \<Rightarrow>
             if allclose (current_cov_mat f) (current_cov_mat f2) 0 (1 / 10 ^ 4) then Inr f2
             else x_iterations dbx mz ds verbose (Suc i) f2)
      else Inr f)"
  by (subst x_iterations.simps) (simp add: x_pass_def Let_def split: sum.splits)

lemma pass_converges_0:
  "x_pass dbx mz ds verbose i f = Inr f2 \<Longrightarrow>
   pass_converges dbx mz ds verbose i 0 f =
     allclose (current_cov_mat f) (current_cov_mat f2) 0 (1 / 10 ^ 4)"
  by (simp add: pass_converges_def)

lemma pass_converges_Suc:
  "x_pass dbx mz ds verbose i f = Inr f2 \<Longrightarrow>
   pass_converges dbx mz ds verbose i (Suc k) f = pass_converges dbx mz ds verbose (Suc i) k f2"
  by (simp add: pass_converges_def cong: sum.case_cong)

lemma x_pass_minimize_calls:
  "x_pass dbx mz ds verbose i f = Inr g \<Longrightarrow> minimize_calls g = Suc (minimize_calls f)"
  by (auto simp: x_pass_def project_x_covariance_matrix_def call_minimizer_def Let_def
        minimize_calls_def split: sum.splits option.splits if_splits)

lemma after_passes_minimize_calls:
  "after_passes dbx mz ds verbose i m f = Inr g \<Longrightarrow> minimize_calls g = minimize_calls f + m"
proof (induction m arbitrary: i f)
  case 0
  then show ?case by simp
next
  case (Suc m)
  then obtain f2 where p: "x_pass dbx mz ds verbose i f = Inr f2"
    and r: "after_passes dbx mz ds verbose (Suc i) m f2 = Inr g"
    by (cases "x_pass dbx mz ds verbose i f") simp_all
  from Suc.IH [OF r] x_pass_minimize_calls [OF p] show ?case by simp
qed

lemma x_iterations_passes:
  "i \<le> max_x_iterations \<Longrightarrow>
   \<exists>m. (i < max_x_iterations \<longrightarrow> 1 \<le> m) \<and> i + m \<le> max_x_iterations \<and>
       x_iterations dbx mz ds verbose i f = after_passes dbx mz ds verbose i m f \<and>
       (\<forall>k<m - 1. \<not> pass_converges dbx mz ds verbose i k f) \<and>
       (i + m < max_x_iterations \<longrightarrow>
          pass_converges dbx mz ds verbose i (m - 1) f \<or>
          (\<exists>e. after_passes dbx mz ds verbose i m f = Inl e))"
proof (induction "max_x_iterations - i" arbitrary: i f)
  case 0
  then have i: "i = max_x_iterations" by simp
  have "x_iterations dbx mz ds verbose i f = after_passes dbx mz ds verbose i 0 f"
    by (subst x_iterations_unfold) (simp add: i)
  then show ?case by (intro exI [of _ 0]) (simp add: i)
next
  case (Suc n)
  then have i: "i < max_x_iterations" by simp
  show ?case
  proof (cases "x_pass dbx mz ds verbose i f")
    case (Inl e)
    have "x_iterations dbx mz ds verbose i f = after_passes dbx mz ds verbose i 1 f"
      by (subst x_iterations_unfold) (simp add: i Inl)
    then show ?thesis using i by (intro exI [of _ 1]) (simp add: Inl)
  next
    case (Inr f2)
    show ?thesis
    proof (cases "allclose (current_cov_mat f) (current_cov_mat f2) 0 (1 / 10 ^ 4)")
      case True
      have "x_iterations dbx mz ds verbose i f = after_passes dbx mz ds verbose i 1 f"
        using True by (subst x_iterations_unfold) (simp add: i Inr)
      then show ?thesis
        using i True by (intro exI [of _ 1]) (simp add: pass_converges_0 [OF Inr] Inr)
    next
      case False
      have step: "x_iterations dbx mz ds verbose i f = x_iterations dbx mz ds verbose (Suc i) f2"
        using False by (subst x_iterations_unfold) (simp add: i Inr)
      have "n = max_x_iterations - Suc i" "Suc i \<le> max_x_iterations"
        using Suc.hyps(2) i by simp_all
      from Suc.hyps(1) [OF this, of f2] obtain m where
        m1: "Suc i < max_x_iterations \<longrightarrow> 1 \<le> m"
        and m2: "Suc i + m \<le> max_x_iterations"
        and m3: "x_iterations dbx mz ds verbose (Suc i) f2 =
                 after_passes dbx mz ds verbose (Suc i) m f2"
        and m4: "\<forall>k<m - 1. \<not> pass_converges dbx mz ds verbose (Suc i) k f2"
        and m5: "Suc i + m < max_x_iterations \<longrightarrow>
                   pass_converges dbx mz ds verbose (Suc i) (m - 1) f2 \<or>
                   (\<exists>e. after_passes dbx mz ds verbose (Suc i) m f2 = Inl e)"
        by blast
      have a: "x_iterations dbx mz ds verbose i f = after_passes dbx mz ds verbose i (Suc m) f"
        by (simp add: step m3 Inr)
      have b: "\<not> pass_converges dbx mz ds verbose i k f" if "k < Suc m - 1" for k
      proof (cases k)
        case 0
        then show ?thesis using False by (simp add: pass_converges_0 [OF Inr])
      next
        case (Suc k')
        with that have "k' < m - 1" by simp
        with m4 show ?thesis by (simp add: Suc pass_converges_Suc [OF Inr])
      qed
      have c: "pass_converges dbx mz ds verbose i (Suc m - 1) f \<or>
               (\<exists>e. after_passes dbx mz ds verbose i (Suc m) f = Inl e)"
        if "i + Suc m < max_x_iterations"
      proof -
        from that have lt: "Suc i + m < max_x_iterations" by simp
        then have "1 \<le> m" using m1 by simp
        then obtain m' where m': "m = Suc m'" by (cases m) simp_all
        from m5 lt show ?thesis
          by (auto simp: m' pass_converges_Suc [OF Inr] Inr)
      qed
      show ?thesis
        using a b c m2 by (intro exI [of _ "Suc m"]) auto
    qed
  qed
qed

text \<open>
  C1. The loop of \<^verbatim>\<open>do_fit\<close> makes \<open>m\<close> passes with \<open>1 \<le> m \<le> 10\<close> and returns what \<open>m\<close>
  passes leave: no pass before the last one converged, and when \<open>m < 10\<close> the last pass
  converged (or a collaborator raised in it). After ten passes the loop ends with the state
  of the tenth pass as its result, converged or not. Every pass sends one \<^verbatim>\<open>minimize\<close>
  message, so a run that returns has sent \<open>m\<close> of them. With \<open>x\<close> errors \<^verbatim>\<open>do_fit\<close> is the
  first call of the minimizer followed by this loop.
\<close>

theorem x_loop_stops_within_ten_passes:
  "(\<exists>m. 1 \<le> m \<and> m \<le> 10 \<and>
        x_iterations dbx mz ds verbose 0 f = after_passes dbx mz ds verbose 0 m f \<and>
        (\<forall>k<m - 1. \<not> pass_converges dbx mz ds verbose 0 k f) \<and>
        (m < 10 \<longrightarrow>
           pass_converges dbx mz ds verbose 0 (m - 1) f \<or>
           (\<exists>e. after_passes dbx mz ds verbose 0 m f = Inl e)) \<and>
        (\<forall>g. x_iterations dbx mz ds verbose 0 f = Inr g \<longrightarrow>
             minimize_calls g = minimize_calls f + m)) \<and>
   (has_errors_x ds \<longrightarrow>
      do_fit dbx mz ds verbose f =
        and_then
          (call_minimizer mz False verbose
             (if number_of_constrained_parameters f = 0
              then f\<lparr>constrained_parameters := None\<rparr> else f))
          (x_iterations dbx mz ds verbose 0))"
proof
  from x_iterations_passes [of 0 dbx mz ds verbose f] obtain m where
    m: "1 \<le> m" "m \<le> 10"
      "x_iterations dbx mz ds verbose 0 f = after_passes dbx mz ds verbose 0 m f"
      "\<forall>k<m - 1. \<not> pass_converges dbx mz ds verbose 0 k f"
      "m < 10 \<longrightarrow> pass_converges dbx mz ds verbose 0 (m - 1) f \<or>
          (\<exists>e. after_passes dbx mz ds verbose 0 m f = Inl e)"
    by (auto simp: max_x_iterations_def)
  have "minimize_calls g = minimize_calls f + m"
    if "x_iterations dbx mz ds verbose 0 f = Inr g" for g
    using that after_passes_minimize_calls [of dbx mz ds verbose 0 m f g] m(3) by simp
  with m show "\<exists>m. 1 \<le> m \<and> m \<le> 10 \<and>
        x_iterations dbx mz ds verbose 0 f = after_passes dbx mz ds verbose 0 m f \<and>
        (\<forall>k<m - 1. \<not> pass_converges dbx mz ds verbose 0 k f) \<and>
        (m < 10 \<longrightarrow>
           pass_converges dbx mz ds verbose 0 (m - 1) f \<or>
           (\<exists>e. after_passes dbx mz ds verbose 0 m f = Inl e)) \<and>
        (\<forall>g. x_iterations dbx mz ds verbose 0 f = Inr g \<longrightarrow>
             minimize_calls g = minimize_calls f + m)"
    by blast
  show "has_errors_x ds \<longrightarrow>
      do_fit dbx mz ds verbose f =
        and_then
          (call_minimizer mz False verbose
             (if number_of_constrained_parameters f = 0
              then f\<lparr>constrained_parameters := None\<rparr> else f))
          (x_iterations dbx mz ds verbose 0)"
    by (auto simp: do_fit_def and_then_def Let_def split: sum.splits)
qed

lemmas loop_eval = x_pass_def project_x_covariance_matrix_def call_minimizer_def
  precision_list_def np_diag_def replace_zero_steps_def outer_product_def allclose_def
  example_slope_def loop_dataset_def loop_fit_def example_fit_def max_x_iterations_def
  Let_def upt_rec

lemma steady_run:
  "x_iterations example_slope steady_minuit loop_dataset False 0 loop_fit =
     Inr (loop_fit\<lparr>current_parameter_values := [3, 2],
            current_parameter_errors := [1 / 10, 1 / 10],
            current_cov_mat := [[49, 0], [0, 49]],
            minimizer := Some [Minimize False 0, Minimize True 2, Minimize True 2]\<rparr>)"
  by (simp add: x_iterations_unfold loop_eval steady_minuit_def)

lemma alternating_run:
  "x_iterations example_slope alternating_minuit loop_dataset False 0 loop_fit =
     Inr (loop_fit\<lparr>current_parameter_values := [1, 2],
            current_parameter_errors := [1 / 10, 1 / 10],
            current_cov_mat := [[49, 0], [0, 49]],
            minimizer := Some [Minimize False 0, Minimize True 2, Minimize True 2,
              Minimize True 2, Minimize True 2, Minimize True 2, Minimize True 2,
              Minimize True 2, Minimize True 2, Minimize True 2]\<rparr>)"
  by (simp add: x_iterations_unfold loop_eval alternating_minuit_def)


lemma steady_passes:
  "\<not> pass_converges example_slope steady_minuit loop_dataset False 0 0 loop_fit \<and>
   \<not> pass_converges example_slope steady_minuit loop_dataset False 0 1 loop_fit \<and>
   pass_converges example_slope steady_minuit loop_dataset False 0 2 loop_fit"
  by (simp add: pass_converges_def eval_nat_numeral loop_eval steady_minuit_def)

lemma steady_do_fit:
  "do_fit example_slope steady_minuit loop_dataset False loop_fit =
     Inr (loop_fit\<lparr>current_parameter_values := [3, 2],
            current_parameter_errors := [1 / 10, 1 / 10],
            constrained_parameters := None,
            current_cov_mat := [[49, 0], [0, 49]],
            minimizer := Some [Minimize False 0, Minimize False 0, Minimize True 2]\<rparr>)"
  by (simp add: do_fit_def x_iterations_unfold loop_eval steady_minuit_def)

text \<open>
  The theorem on the examples. With the steady minimizer the variances go from \<open>4\<close> to \<open>9\<close>
  to \<open>49\<close> and stay there: the third pass converges and the loop stops after it. With the
  alternating minimizer the variances alternate between \<open>9\<close> and \<open>49\<close>: the loop makes ten
  passes and returns the state of the tenth.
\<close>

theorem x_loop_stops_within_ten_passes_witness:
  "x_iterations example_slope steady_minuit loop_dataset False 0 loop_fit =
     Inr (loop_fit\<lparr>current_parameter_values := [3, 2],
            current_parameter_errors := [1 / 10, 1 / 10],
            current_cov_mat := [[49, 0], [0, 49]],
            minimizer := Some [Minimize False 0, Minimize True 2, Minimize True 2]\<rparr>) \<and>
   \<not> pass_converges example_slope steady_minuit loop_dataset False 0 0 loop_fit \<and>
   \<not> pass_converges example_slope steady_minuit loop_dataset False 0 1 loop_fit \<and>
   pass_converges example_slope steady_minuit loop_dataset False 0 2 loop_fit \<and>
   x_iterations example_slope alternating_minuit loop_dataset False 0 loop_fit =
     Inr (loop_fit\<lparr>current_parameter_values := [1, 2],
            current_parameter_errors := [1 / 10, 1 / 10],
            current_cov_mat := [[49, 0], [0, 49]],
            minimizer := Some [Minimize False 0, Minimize True 2, Minimize True 2,
              Minimize True 2, Minimize True 2, Minimize True 2, Minimize True 2,
              Minimize True 2, Minimize True 2, Minimize True 2]\<rparr>) \<and>
   has_errors_x loop_dataset \<and>
   do_fit example_slope steady_minuit loop_dataset False loop_fit =
     Inr (loop_fit\<lparr>current_parameter_values := [3, 2],
            current_parameter_errors := [1 / 10, 1 / 10],
            constrained_parameters := None,
            current_cov_mat := [[49, 0], [0, 49]],
            minimizer := Some [Minimize False 0, Minimize False 0, Minimize True 2]\<rparr>) \<and>
   (\<exists>m. 1 \<le> m \<and> m \<le> 10 \<and>
        minimize_calls
          (loop_fit\<lparr>current_parameter_values := [3, 2],
             current_parameter_errors := [1 / 10, 1 / 10],
             current_cov_mat := [[49, 0], [0, 49]],
             minimizer := Some [Minimize False 0, Minimize True 2, Minimize True 2]\<rparr>) =
        minimize_calls loop_fit + m) \<and>
   (\<exists>m. 1 \<le> m \<and> m \<le> 10 \<and>
        minimize_calls
          (loop_fit\<lparr>current_parameter_values := [1, 2],
             current_parameter_errors := [1 / 10, 1 / 10],
             current_cov_mat := [[49, 0], [0, 49]],
             minimizer := Some [Minimize False 0, Minimize True 2, Minimize True 2,
               Minimize True 2, Minimize True 2, Minimize True 2, Minimize True 2,
               Minimize True 2, Minimize True 2, Minimize True 2]\<rparr>) =
        minimize_calls loop_fit + m)"
proof -
  note t1 = x_loop_stops_within_ten_passes [of example_slope steady_minuit loop_dataset False loop_fit]
  note t2 = x_loop_stops_within_ten_passes [of example_slope alternating_minuit loop_dataset False loop_fit]
  have e1: "\<exists>m. 1 \<le> m \<and> m \<le> 10 \<and>
        minimize_calls
          (loop_fit\<lparr>current_parameter_values := [3, 2],
             current_parameter_errors := [1 / 10, 1 / 10],
             current_cov_mat := [[49, 0], [0, 49]],
             minimizer := Some [Minimize False 0, Minimize True 2, Minimize True 2]\<rparr>) =
        minimize_calls loop_fit + m"
    using t1 unfolding steady_run by blast
  have e2: "\<exists>m. 1 \<le> m \<and> m \<le> 10 \<and>
        minimize_calls
          (loop_fit\<lparr>current_parameter_values := [1, 2],
             current_parameter_errors := [1 / 10, 1 / 10],
             current_cov_mat := [[49, 0], [0, 49]],
             minimizer := Some [Minimize False 0, Minimize True 2, Minimize True 2,
               Minimize True 2, Minimize True 2, Minimize True 2, Minimize True 2,
               Minimize True 2, Minimize True 2, Minimize True 2]\<rparr>) =
        minimize_calls loop_fit + m"
    using t2 unfolding alternating_run by blast
  have h: "has_errors_x loop_dataset" by (simp add: loop_dataset_def)
  from steady_run steady_passes alternating_run h steady_do_fit e1 e2
  show ?thesis by blast
qed

end
